theory Spec2Isabelle
  imports Complex_Main
begin

section \<open>JavaScript strings\<close>

text \<open>
  A JavaScript string is a sequence of UTF-16 code units, and \<open>length\<close>, indexing,
  \<open>includes\<close> and the regular expressions of \<open>server.js\<close> all work on code units. A
  code unit is modelled by its number, so that the literals of the source that lie outside
  Latin-1 can be written down. String literals of the source are written \<open>str ''...''\<close>.
\<close>

type_synonym jsstring = "nat list"

definition str :: "string \<Rightarrow> jsstring" where
  "str s = map of_char s"

abbreviation (input) cc :: "char \<Rightarrow> nat" where
  "cc c \<equiv> of_char c"

definition is_digit :: "nat \<Rightarrow> bool" where
  "is_digit c = (48 \<le> c \<and> c \<le> 57)"

definition is_upper :: "nat \<Rightarrow> bool" where
  "is_upper c = (65 \<le> c \<and> c \<le> 90)"

definition is_lower :: "nat \<Rightarrow> bool" where
  "is_lower c = (97 \<le> c \<and> c \<le> 122)"

text \<open>The class \<open>[A-Z0-9]\<close>.\<close>

definition is_upper_alnum :: "nat \<Rightarrow> bool" where
  "is_upper_alnum c = (is_upper c \<or> is_digit c)"

text \<open>
  White space and line terminators of ECMAScript: what \<open>trim\<close> removes, what \<open>\s\<close>
  matches, and what \<open>parseFloat\<close> and \<open>parseInt\<close> skip.
\<close>

definition is_space :: "nat \<Rightarrow> bool" where
  "is_space c = ((9 \<le> c \<and> c \<le> 13) \<or> c = 32 \<or> c = 160 \<or> c = 5760 \<or> (8192 \<le> c \<and> c \<le> 8202)
     \<or> c = 8232 \<or> c = 8233 \<or> c = 8239 \<or> c = 8287 \<or> c = 12288 \<or> c = 65279)"

definition trim :: "jsstring \<Rightarrow> jsstring" where
  "trim s = rev (dropWhile is_space (rev (dropWhile is_space s)))"

definition starts_with :: "jsstring \<Rightarrow> jsstring \<Rightarrow> bool" where
  "starts_with s p = (take (length p) s = p)"

text \<open>\<open>s.includes(sub)\<close>: \<open>sub\<close> occurs at some position of \<open>s\<close>.\<close>

fun js_includes :: "jsstring \<Rightarrow> jsstring \<Rightarrow> bool" where
  "js_includes [] sub = (sub = [])"
| "js_includes (c # cs) sub = (starts_with (c # cs) sub \<or> js_includes cs sub)"

text \<open>
  \<open>toLowerCase\<close>, on the code units below 256: the letters \<open>A-Z\<close> and the capital
  letters of Latin-1 (\<open>0xC0-0xDE\<close> without the multiplication sign). Code units from 256
  on are left as they are, so the embedding follows the source on texts whose cased letters
  are Latin-1.
\<close>

definition lower_unit :: "nat \<Rightarrow> nat" where
  "lower_unit c = (if is_upper c \<or> (192 \<le> c \<and> c \<le> 222 \<and> c \<noteq> 215) then c + 32 else c)"

definition toLowerCase :: "jsstring \<Rightarrow> jsstring" where
  "toLowerCase s = map lower_unit s"

text \<open>
  \<open>a || b\<close> on values that are a string or \<open>undefined\<close>: \<open>undefined\<close> and the empty
  string are falsy.
\<close>

definition truthy :: "jsstring option \<Rightarrow> bool" where
  "truthy v = (case v of None \<Rightarrow> False | Some s \<Rightarrow> s \<noteq> [])"

definition or_else :: "jsstring option \<Rightarrow> jsstring option \<Rightarrow> jsstring option" where
  "or_else a b = (if truthy a then a else b)"

section \<open>The parsed document\<close>

text \<open>
  The document parser (cheerio) is an external library. What the scraper uses of it is the
  query \<open>$(selector)\<close>, which gives the matching nodes in document order, and on a node its
  text, its attributes and the query \<open>find(selector)\<close> below it. A document is modelled by
  its answers to these queries.
\<close>

datatype node = Node (ntext: jsstring) (nattr: "jsstring \<Rightarrow> jsstring option")
  (nfind: "jsstring \<Rightarrow> node list")

type_synonym document = "jsstring \<Rightarrow> node list"

text \<open>\<open>.text()\<close> of a selection: the texts of its nodes, concatenated.\<close>

definition text_of :: "node list \<Rightarrow> jsstring" where
  "text_of ns = concat (map ntext ns)"

text \<open>\<open>.first().text()\<close>: the text of the first node, the empty string without one.\<close>

definition first_text :: "node list \<Rightarrow> jsstring" where
  "first_text ns = (case ns of [] \<Rightarrow> [] | n # _ \<Rightarrow> ntext n)"

text \<open>\<open>.attr(name)\<close> of a selection: the attribute of its first node.\<close>

definition attr_of :: "node list \<Rightarrow> jsstring \<Rightarrow> jsstring option" where
  "attr_of ns name = (case ns of [] \<Rightarrow> None | n # _ \<Rightarrow> nattr n name)"

section \<open>ASIN\<close>

text \<open>
  \<open>url.match(/\/([A-Z0-9]{10})\//)\<close>: the leftmost position with a slash, ten code units
  of \<open>[A-Z0-9]\<close> and a slash; the result is the group of ten.
\<close>

definition asin_at :: "jsstring \<Rightarrow> bool" where
  "asin_at cs = (11 \<le> length cs \<and> list_all is_upper_alnum (take 10 cs) \<and> cs ! 10 = cc CHR ''/'')"

fun url_asin_match :: "jsstring \<Rightarrow> jsstring option" where
  "url_asin_match [] = None"
| "url_asin_match (c # cs) =
     (if c = cc CHR ''/'' \<and> asin_at cs then Some (take 10 cs) else url_asin_match cs)"

text \<open>\<open>/^[A-Z0-9]{10}$/.test(asin)\<close>.\<close>

definition is_asin :: "jsstring \<Rightarrow> bool" where
  "is_asin s = (length s = 10 \<and> list_all is_upper_alnum s)"

definition asin_selectors :: "jsstring list" where
  "asin_selectors = [str ''[data-asin]'', str ''#ASIN'', str ''input[name=\"ASIN\"]'']"

fun asin_chain :: "document \<Rightarrow> jsstring list \<Rightarrow> jsstring" where
  "asin_chain doc [] = []"
| "asin_chain doc (selector # rest) =
     (let asin = or_else (attr_of (doc selector) (str ''value''))
                         (attr_of (doc selector) (str ''data-asin''))
      in case asin of
           Some a \<Rightarrow> if a \<noteq> [] \<and> is_asin a then a else asin_chain doc rest
         | None \<Rightarrow> asin_chain doc rest)"

definition extractASIN :: "document \<Rightarrow> jsstring \<Rightarrow> jsstring" where
  "extractASIN doc url =
     (case url_asin_match url of
        Some a \<Rightarrow> a
      | None \<Rightarrow> asin_chain doc asin_selectors)"

text \<open>
  The path segments of a URL, for stating what the pattern finds: the URL is cut at its
  slashes, and the segments between two slashes are all parts but the first and the last.
\<close>

fun split_on :: "nat \<Rightarrow> jsstring \<Rightarrow> jsstring list" where
  "split_on d [] = [[]]"
| "split_on d (c # cs) =
     (if c = d then [] # split_on d cs
      else case split_on d cs of [] \<Rightarrow> [[c]] | p # ps \<Rightarrow> (c # p) # ps)"

definition inner_segments :: "jsstring \<Rightarrow> jsstring list" where
  "inner_segments url = butlast (tl (split_on (cc CHR ''/'') url))"

definition asin_segments :: "jsstring \<Rightarrow> jsstring list" where
  "asin_segments url = filter is_asin (inner_segments url)"

section \<open>Title, brand and model\<close>

text \<open>
  The loop shared by \<open>extractTitle\<close> and the first part of \<open>extractModel\<close>:
  \<^verbatim>\<open>for (const selector of selectors) {
      const title = $(selector).first().text().trim();
      if (title) return title; }\<close>
  The result is the empty string when no selector gives a text.
\<close>

fun first_trimmed_text :: "document \<Rightarrow> jsstring list \<Rightarrow> jsstring" where
  "first_trimmed_text doc [] = []"
| "first_trimmed_text doc (selector # rest) =
     (let t = trim (first_text (doc selector))
      in if t \<noteq> [] then t else first_trimmed_text doc rest)"

definition title_selectors :: "jsstring list" where
  "title_selectors = [str ''#productTitle'', str ''.product-title'',
     str ''[data-cy=\"product-title\"]'', str ''h1.a-size-large.a-spacing-none'', str ''h1 span'']"

definition extractTitle :: "document \<Rightarrow> jsstring" where
  "extractTitle doc = first_trimmed_text doc title_selectors"

text \<open>
  A pattern with the flag \<open>i\<close> and no flag \<open>u\<close> matches an ASCII letter of the pattern
  against the two ASCII letters only.
\<close>

definition ascii_lower :: "nat \<Rightarrow> nat" where
  "ascii_lower c = (if is_upper c then c + 32 else c)"

definition starts_with_ci :: "jsstring \<Rightarrow> jsstring \<Rightarrow> bool" where
  "starts_with_ci s p = (map ascii_lower (take (length p) s) = p)"

text \<open>\<open>.replace(/^Brand:\s*/i, '')\<close> and \<open>.replace(/^by\s+/i, '')\<close>.\<close>

definition strip_brand_prefix :: "jsstring \<Rightarrow> jsstring" where
  "strip_brand_prefix s =
     (if starts_with_ci s (str ''brand:'') then dropWhile is_space (drop 6 s) else s)"

definition strip_by_prefix :: "jsstring \<Rightarrow> jsstring" where
  "strip_by_prefix s =
     (if starts_with_ci s (str ''by'') \<and> drop 2 s \<noteq> [] \<and> is_space (hd (drop 2 s))
      then dropWhile is_space (drop 2 s) else s)"

text \<open>
  \<open>title.match(/^([A-Z][a-zA-Z\s&-]+?)[\s-]+/)\<close>: a capital letter, then the shortest
  non-empty run of \<open>[a-zA-Z\s&-]\<close> that is followed by white space or a hyphen. The group
  is the capital letter with the run.
\<close>

definition brand_class :: "nat \<Rightarrow> bool" where
  "brand_class c = (is_lower c \<or> is_upper c \<or> is_space c \<or> c = cc CHR ''&'' \<or> c = cc CHR ''-'')"

definition brand_sep :: "nat \<Rightarrow> bool" where
  "brand_sep c = (is_space c \<or> c = cc CHR ''-'')"

fun brand_lazy :: "jsstring \<Rightarrow> jsstring \<Rightarrow> jsstring option" where
  "brand_lazy acc [] = None"
| "brand_lazy acc (x # xs) =
     (if brand_sep x then Some acc
      else if brand_class x then brand_lazy (acc @ [x]) xs
      else None)"

definition brand_title_match :: "jsstring \<Rightarrow> jsstring option" where
  "brand_title_match title =
     (case title of
        c # d # rest \<Rightarrow> if is_upper c \<and> brand_class d then brand_lazy [c, d] rest else None
      | _ \<Rightarrow> None)"

definition brand_selectors :: "jsstring list" where
  "brand_selectors = [str ''#bylineInfo'', str ''.a-link-normal[href*=\"/stores/\"]'',
     str ''a[data-brand]'', str ''.po-brand .po-break-word'', str ''#brandNameHeading'',
     str ''[data-cy=\"brand-name\"]'']"

fun brand_chain :: "document \<Rightarrow> jsstring list \<Rightarrow> jsstring option" where
  "brand_chain doc [] = None"
| "brand_chain doc (selector # rest) =
     (let brand = trim (first_text (doc selector))
      in if brand \<noteq> [] \<and> \<not> js_includes (toLowerCase brand) (str ''visit'')
            \<and> \<not> js_includes (toLowerCase brand) (str ''store'')
         then Some (strip_by_prefix (strip_brand_prefix brand))
         else brand_chain doc rest)"

definition extractBrand :: "document \<Rightarrow> jsstring" where
  "extractBrand doc =
     (case brand_chain doc brand_selectors of
        Some b \<Rightarrow> b
      | None \<Rightarrow>
          (let title = extractTitle doc
           in if title \<noteq> []
              then (case brand_title_match title of Some g \<Rightarrow> trim g | None \<Rightarrow> [])
              else []))"

definition model_selectors :: "jsstring list" where
  "model_selectors = [str ''.po-model_name .po-break-word'', str ''[data-cy=\"model-name\"]'',
     str ''#model_name'', str ''.model-name'']"

text \<open>
  The rows of the technical details, visited with cheerio's \<open>each\<close>, which stops when the
  callback returns \<open>false\<close>.
\<close>

fun model_rows :: "node list \<Rightarrow> jsstring" where
  "model_rows [] = []"
| "model_rows (row # rows) =
     (let label = toLowerCase (trim (text_of (nfind row (str ''td:first-child, th:first-child''))))
      in if js_includes label (str ''model'') \<and> \<not> js_includes label (str ''number'')
         then (let v = trim (text_of (nfind row (str ''td:last-child'')))
               in if v \<noteq> [] \<and> v \<noteq> str ''N/A'' \<and> v \<noteq> str ''-'' then v else model_rows rows)
         else model_rows rows)"

definition extractModel :: "document \<Rightarrow> jsstring" where
  "extractModel doc =
     (let model = first_trimmed_text doc model_selectors
      in if model \<noteq> [] then model
         else model_rows
                (doc (str ''#tech tbody tr, #productDetails_detailBullets_sections1 tbody tr'')))"

section \<open>Rating\<close>

record rating_info =
  rating :: "jsstring option"
  ratingCount :: "jsstring option"

text \<open>
  \<open>ratingText.match(/(\d+\.?\d*)\s*out\s*of\s*5/i)\<close>. At one position the pattern has
  one way to match: the digits, the point, the digits and the white space are each taken
  as far as they go, since what has to follow each of them is outside its class. The
  result is group 1 of the leftmost match.
\<close>

definition rating_at :: "jsstring \<Rightarrow> jsstring option" where
  "rating_at s =
     (let d1 = takeWhile is_digit s; r1 = dropWhile is_digit s;
          dot = (if r1 \<noteq> [] \<and> hd r1 = cc CHR ''.'' then [cc CHR ''.''] else []);
          r2 = drop (length dot) r1;
          d2 = takeWhile is_digit r2;
          r3 = dropWhile is_space (dropWhile is_digit r2);
          r4 = dropWhile is_space (drop 3 r3);
          r5 = dropWhile is_space (drop 2 r4)
      in if d1 \<noteq> [] \<and> starts_with_ci r3 (str ''out'') \<and> starts_with_ci r4 (str ''of'')
            \<and> starts_with r5 (str ''5'')
         then Some (d1 @ dot @ d2) else None)"

fun rating_match :: "jsstring \<Rightarrow> jsstring option" where
  "rating_match [] = rating_at []"
| "rating_match (c # cs) =
     (case rating_at (c # cs) of Some g \<Rightarrow> Some g | None \<Rightarrow> rating_match cs)"

text \<open>\<open>countText.match(/([0-9,]+)/)\<close>: the leftmost run of digits and commas.\<close>

definition digit_or_comma :: "nat \<Rightarrow> bool" where
  "digit_or_comma c = (is_digit c \<or> c = cc CHR '','')"

definition count_match :: "jsstring \<Rightarrow> jsstring option" where
  "count_match s =
     (let r = dropWhile (\<lambda>c. \<not> digit_or_comma c) s
      in if r = [] then None else Some (takeWhile digit_or_comma r))"

definition rating_selectors :: "jsstring list" where
  "rating_selectors = [str ''.a-icon-alt'', str ''[data-cy=\"reviews-ratings-slot\"] .a-icon-alt'',
     str ''.reviewCountTextLinkedHistogram .a-icon-alt'', str ''#acrPopover .a-icon-alt'']"

definition count_selectors :: "jsstring list" where
  "count_selectors = [str ''#acrCustomerReviewText'',
     str ''[data-cy=\"reviews-ratings-slot\"] a[href*=\"reviews\"]'',
     str ''.reviewCountTextLinkedHistogram a'', str ''#averageCustomerReviews a'']"

text \<open>
  Both loops of \<open>extractRating\<close>: the first selector whose first node's trimmed text the
  pattern matches gives the field, and the loop ends there.
\<close>

fun match_chain :: "(jsstring \<Rightarrow> jsstring option) \<Rightarrow> document \<Rightarrow> jsstring list \<Rightarrow> jsstring option" where
  "match_chain m doc [] = None"
| "match_chain m doc (selector # rest) =
     (case m (trim (first_text (doc selector))) of
        Some g \<Rightarrow> Some g
      | None \<Rightarrow> match_chain m doc rest)"

definition extractRating :: "document \<Rightarrow> rating_info" where
  "extractRating doc =
     \<lparr> rating = match_chain rating_match doc rating_selectors,
       ratingCount = match_chain count_match doc count_selectors \<rparr>"

section \<open>Colors, description and technical data\<close>

definition color_selectors :: "jsstring list" where
  "color_selectors = [str ''#variation_color_name li'', str ''.a-button-thumbnail img'',
     str ''[data-cy=\"color-name\"]'', str ''#color_name_list li'', str ''.swatches li'']"

text \<open>The name of one matched node, by the chain of \<open>||\<close> of the source.\<close>

definition color_name :: "node \<Rightarrow> jsstring option" where
  "color_name el =
     or_else (or_else (or_else (or_else
       (nattr el (str ''title''))
       (nattr el (str ''alt'')))
       (Some (trim (ntext el))))
       (attr_of (nfind el (str ''img'')) (str ''alt'')))
       (attr_of (nfind el (str ''img'')) (str ''title''))"

definition add_color :: "jsstring list \<Rightarrow> node \<Rightarrow> jsstring list" where
  "add_color colors el =
     (case color_name el of
        Some colorName \<Rightarrow>
          if colorName \<noteq> [] \<and> colorName \<notin> set colors \<and> 1 < length colorName
          then colors @ [colorName] else colors
      | None \<Rightarrow> colors)"

definition extractColors :: "document \<Rightarrow> jsstring list" where
  "extractColors doc =
     take 10 (foldl (\<lambda>colors selector. foldl add_color colors (doc selector)) [] color_selectors)"

text \<open>\<open>items.join(sep)\<close>.\<close>

fun js_join :: "jsstring \<Rightarrow> jsstring list \<Rightarrow> jsstring" where
  "js_join sep [] = []"
| "js_join sep [x] = x"
| "js_join sep (x # y # ys) = x @ sep @ js_join sep (y # ys)"

text \<open>
  The marker of the description is the three code units \<open>U+00E2 U+20AC U+00A2\<close> in the
  source file, and the value left out of the technical data is \<open>U+00E2 U+20AC U+017D\<close>.
\<close>

definition bullet :: jsstring where
  "bullet = [226, 8364, 162]"

definition empty_glyph :: jsstring where
  "empty_glyph = [226, 8364, 381]"

definition about_selectors :: "jsstring list" where
  "about_selectors = [str ''#feature-bullets ul li span'', str ''[data-cy=\"item-bullets\"] li'',
     str ''#productDescription p'', str ''.a-unordered-list.a-vertical.a-spacing-none li span'']"

definition about_items :: "node list \<Rightarrow> jsstring list" where
  "about_items ns =
     filter (\<lambda>t. t \<noteq> [] \<and> 10 < length t \<and> \<not> js_includes (toLowerCase t) (str ''see more''))
       (map (\<lambda>el. trim (ntext el)) ns)"

fun about_chain :: "document \<Rightarrow> jsstring list \<Rightarrow> jsstring" where
  "about_chain doc [] = []"
| "about_chain doc (selector # rest) =
     (let items = about_items (doc selector)
      in if 0 < length items then js_join ([10] @ bullet @ str '' '') items
         else about_chain doc rest)"

definition extractAboutItem :: "document \<Rightarrow> jsstring" where
  "extractAboutItem doc =
     (let aboutText = about_chain doc about_selectors
      in if aboutText \<noteq> [] then bullet @ str '' '' @ aboutText else [])"

definition tech_selectors :: "jsstring list" where
  "tech_selectors = [str ''#tech tbody tr'', str ''#productDetails_detailBullets_sections1 tbody tr'',
     str ''#productDetails_techSpec_section_1 tbody tr'', str ''.a-keyvalue tbody tr'']"

definition add_tech_row :: "jsstring list \<Rightarrow> node \<Rightarrow> jsstring list" where
  "add_tech_row techData row =
     (let label = trim (text_of (nfind row (str ''td:first-child, th:first-child'')));
          v = trim (text_of (nfind row (str ''td:last-child, td:nth-child(2)'')))
      in if label \<noteq> [] \<and> v \<noteq> [] \<and> v \<noteq> str ''N/A'' \<and> v \<noteq> str ''-'' \<and> v \<noteq> empty_glyph
         then techData @ [label @ str '': '' @ v] else techData)"

text \<open>
  \<open>techSelectors\<close> is an array and the loop over it is \<open>Array.prototype.forEach\<close>, which
  ignores what its callback returns. The statement
  \<^verbatim>\<open>if (techData.length > 0) return false; // Stop after finding data\<close>
  ends one call of the callback and the loop goes on to the next selector, so the rows of
  every selector are collected. (The inner loop is cheerio's \<open>each\<close>; its callback returns
  nothing.)
\<close>

definition tech_rows :: "document \<Rightarrow> jsstring list \<Rightarrow> jsstring list" where
  "tech_rows doc selectors =
     foldl (\<lambda>techData selector. foldl add_tech_row techData (doc selector)) [] selectors"

definition extractTechnicalData :: "document \<Rightarrow> jsstring" where
  "extractTechnicalData doc = js_join [10] (tech_rows doc tech_selectors)"

section \<open>Images and categories\<close>

record image =
  url :: jsstring
  alt :: jsstring
  downloaded :: bool

text \<open>
  \<open>src.replace(/\._[A-Z]{2}[0-9]+_/, '._AC_SX500_')\<close>: the leftmost place with a point,
  an underscore, two capital letters, one or more digits and an underscore is replaced.
\<close>

definition size_token_at :: "jsstring \<Rightarrow> nat option" where
  "size_token_at s =
     (let ds = takeWhile is_digit (drop 4 s)
      in if starts_with s (str ''._'') \<and> 4 \<le> length s \<and> is_upper (s ! 2) \<and> is_upper (s ! 3)
            \<and> ds \<noteq> [] \<and> starts_with (drop (4 + length ds) s) (str ''_'')
         then Some (4 + length ds + 1) else None)"

fun replace_size :: "jsstring \<Rightarrow> jsstring" where
  "replace_size [] = []"
| "replace_size (c # cs) =
     (case size_token_at (c # cs) of
        Some n \<Rightarrow> str ''._AC_SX500_'' @ drop n (c # cs)
      | None \<Rightarrow> c # replace_size cs)"

text \<open>
  \<open>.replace(/\._.*?\./, '._AC_SX500_.')\<close>: the leftmost place with a point and an
  underscore from which the next point is reached without a line terminator in between
  (the point of a pattern does not match one); the text up to that point is replaced.
\<close>

definition is_line_terminator :: "nat \<Rightarrow> bool" where
  "is_line_terminator c = (c = 10 \<or> c = 13 \<or> c = 8232 \<or> c = 8233)"

definition modifier_at :: "jsstring \<Rightarrow> nat option" where
  "modifier_at s =
     (let m = takeWhile (\<lambda>c. c \<noteq> cc CHR ''.'') (drop 2 s)
      in if starts_with s (str ''._'') \<and> length m < length (drop 2 s)
            \<and> \<not> list_ex is_line_terminator m
         then Some (2 + length m + 1) else None)"

fun replace_modifier :: "jsstring \<Rightarrow> jsstring" where
  "replace_modifier [] = []"
| "replace_modifier (c # cs) =
     (case modifier_at (c # cs) of
        Some n \<Rightarrow> str ''._AC_SX500_.'' @ drop n (c # cs)
      | None \<Rightarrow> c # replace_modifier cs)"

text \<open>The decimal digits of an array length, as a template literal prints it.\<close>

fun digits_of :: "nat \<Rightarrow> jsstring" where
  "digits_of n = (if n < 10 then [48 + n] else digits_of (n div 10) @ [48 + n mod 10])"

declare digits_of.simps [simp del]

definition image_selectors :: "jsstring list" where
  "image_selectors = [str ''#altImages img'', str ''#imageBlock img'', str ''.a-dynamic-image'',
     str ''#main-image'', str ''[data-cy=\"product-image\"]'']"

text \<open>
  The state of the loop of \<open>extractImages\<close>: the array \<open>images\<close> and the set \<open>seenUrls\<close>,
  kept as the list of its members in the order they were added.
\<close>

definition add_image :: "image list \<times> jsstring list \<Rightarrow> node \<Rightarrow> image list \<times> jsstring list" where
  "add_image st img =
     (let images = fst st; seenUrls = snd st;
          src0 = or_else (or_else (or_else
                   (nattr img (str ''data-old-hires''))
                   (nattr img (str ''data-large-image-url'')))
                   (nattr img (str ''data-src'')))
                   (nattr img (str ''src''))
      in case src0 of
           None \<Rightarrow> st
         | Some s0 \<Rightarrow>
             if s0 = [] then st
             else (let src = replace_modifier (replace_size s0)
                   in if src \<notin> set seenUrls \<and> js_includes src (str ''amazon'')
                         \<and> \<not> js_includes src (str ''sprite'')
                      then (images @ [\<lparr> url = src,
                              alt = (case or_else (nattr img (str ''alt'')) None of
                                       Some a \<Rightarrow> a
                                     | None \<Rightarrow> str ''Product image '' @ digits_of (length images + 1)),
                              downloaded = False \<rparr>],
                            seenUrls @ [src])
                      else st))"

definition image_loop :: "document \<Rightarrow> jsstring list \<Rightarrow> image list \<times> jsstring list" where
  "image_loop doc selectors =
     foldl (\<lambda>st selector. foldl add_image st (doc selector)) ([], []) selectors"

definition extractImages :: "document \<Rightarrow> image list" where
  "extractImages doc = take 6 (fst (image_loop doc image_selectors))"

definition breadcrumb_selectors :: "jsstring list" where
  "breadcrumb_selectors = [str ''#wayfinding-breadcrumbs_container a'', str ''.a-breadcrumb a'',
     str ''#nav-subnav a'', str ''[data-cy=\"breadcrumb\"] a'']"

definition add_category :: "jsstring list \<Rightarrow> node \<Rightarrow> jsstring list" where
  "add_category categories el =
     (let category = trim (ntext el)
      in if category \<noteq> [] \<and> 2 < length category
            \<and> \<not> js_includes (toLowerCase category) (str ''amazon'')
            \<and> category \<notin> set categories
         then categories @ [category] else categories)"

text \<open>
  As in \<open>extractTechnicalData\<close>, the loop over the array \<open>breadcrumbSelectors\<close> is
  \<open>Array.prototype.forEach\<close>, and
  \<^verbatim>\<open>if (categories.length > 0) return false; // Stop after finding categories\<close>
  does not end it: every selector is visited.
\<close>

definition category_loop :: "document \<Rightarrow> jsstring list \<Rightarrow> jsstring list" where
  "category_loop doc selectors =
     foldl (\<lambda>categories selector. foldl add_category categories (doc selector)) [] selectors"

definition extractCategories :: "document \<Rightarrow> jsstring list" where
  "extractCategories doc = take 5 (category_loop doc breadcrumb_selectors)"

section \<open>JavaScript numbers\<close>

text \<open>
  A Number is an IEEE 754 double. A finite double is modelled by its exact value, a
  rational; an operation computes the exact result and rounds it to the nearest double,
  ties to the even significand, as IEEE 754 prescribes. The two zeros are one value
  (the code never divides by a zero, and prints and compares both zeros alike).
\<close>

datatype jsnum = NaN | PosInf | NegInf | Fin rat

definition pow2 :: "int \<Rightarrow> rat" where
  "pow2 e = (if 0 \<le> e then 2 ^ nat e else 1 / 2 ^ nat (- e))"

definition pow10 :: "int \<Rightarrow> rat" where
  "pow10 e = (if 0 \<le> e then 10 ^ nat e else 1 / 10 ^ nat (- e))"

text \<open>The number of digits of \<open>n\<close> in base \<open>b\<close> (no digit for 0).\<close>

fun ndigits :: "nat \<Rightarrow> nat \<Rightarrow> nat" where
  "ndigits b n = (if n = 0 \<or> b < 2 then 0 else Suc (ndigits b (n div b)))"

declare ndigits.simps [simp del]

text \<open>
  \<open>floor_log b q\<close> is the integer \<open>e\<close> with \<open>b^e \<le> q < b^(e+1)\<close>, for \<open>q > 0\<close>: from
  1 on it is one less than the number of digits of the integer part of \<open>q\<close>, and below 1
  it is the negated number of digits of the largest integer below \<open>1 / q\<close>.
\<close>

definition floor_log :: "nat \<Rightarrow> rat \<Rightarrow> int" where
  "floor_log b q =
     (if 1 \<le> q then int (ndigits b (nat \<lfloor>q\<rfloor>)) - 1
      else - int (ndigits b (nat (\<lceil>1 / q\<rceil> - 1))))"

definition round_even :: "rat \<Rightarrow> int" where
  "round_even q =
     (let f = \<lfloor>q\<rfloor>; r = q - of_int f
      in if r < 1 / 2 then f else if 1 / 2 < r then f + 1 else if even f then f else f + 1)"

text \<open>
  Rounding a rational to a double: 53 bits of significand, the unit in the last place not
  below \<open>2^-1074\<close> (subnormal numbers), infinity from \<open>2^1024\<close> on.
\<close>

definition round_double :: "rat \<Rightarrow> jsnum" where
  "round_double q =
     (if q = 0 then Fin 0
      else (let a = \<bar>q\<bar>;
                p = max (floor_log 2 a - 52) (- 1074);
                r = of_int (round_even (a / pow2 p)) * pow2 p
            in if r \<noteq> 0 \<and> 1024 \<le> floor_log 2 r then (if q < 0 then NegInf else PosInf)
               else Fin (if q < 0 then - r else r)))"

definition js_sub :: "jsnum \<Rightarrow> jsnum \<Rightarrow> jsnum" where
  "js_sub x y =
     (case (x, y) of
        (Fin a, Fin b) \<Rightarrow> round_double (a - b)
      | (Fin a, PosInf) \<Rightarrow> NegInf
      | (Fin a, NegInf) \<Rightarrow> PosInf
      | (PosInf, Fin b) \<Rightarrow> PosInf
      | (PosInf, NegInf) \<Rightarrow> PosInf
      | (NegInf, Fin b) \<Rightarrow> NegInf
      | (NegInf, PosInf) \<Rightarrow> NegInf
      | _ \<Rightarrow> NaN)"

definition js_div :: "jsnum \<Rightarrow> jsnum \<Rightarrow> jsnum" where
  "js_div x y =
     (case (x, y) of
        (Fin a, Fin b) \<Rightarrow>
          if b = 0 then (if a = 0 then NaN else if 0 < a then PosInf else NegInf)
          else round_double (a / b)
      | (Fin a, PosInf) \<Rightarrow> Fin 0
      | (Fin a, NegInf) \<Rightarrow> Fin 0
      | (PosInf, Fin b) \<Rightarrow> if 0 \<le> b then PosInf else NegInf
      | (NegInf, Fin b) \<Rightarrow> if 0 \<le> b then NegInf else PosInf
      | _ \<Rightarrow> NaN)"

definition js_mul :: "jsnum \<Rightarrow> jsnum \<Rightarrow> jsnum" where
  "js_mul x y =
     (case (x, y) of
        (Fin a, Fin b) \<Rightarrow> round_double (a * b)
      | (Fin a, PosInf) \<Rightarrow> if a = 0 then NaN else if 0 < a then PosInf else NegInf
      | (Fin a, NegInf) \<Rightarrow> if a = 0 then NaN else if 0 < a then NegInf else PosInf
      | (PosInf, Fin b) \<Rightarrow> if b = 0 then NaN else if 0 < b then PosInf else NegInf
      | (NegInf, Fin b) \<Rightarrow> if b = 0 then NaN else if 0 < b then NegInf else PosInf
      | (PosInf, PosInf) \<Rightarrow> PosInf
      | (NegInf, NegInf) \<Rightarrow> PosInf
      | (PosInf, NegInf) \<Rightarrow> NegInf
      | (NegInf, PosInf) \<Rightarrow> NegInf
      | _ \<Rightarrow> NaN)"

text \<open>\<open>x > y\<close> and \<open>x >= y\<close>: false when an operand is \<open>NaN\<close>.\<close>

definition js_gt :: "jsnum \<Rightarrow> jsnum \<Rightarrow> bool" where
  "js_gt x y =
     (case (x, y) of
        (Fin a, Fin b) \<Rightarrow> b < a
      | (Fin a, NegInf) \<Rightarrow> True
      | (PosInf, Fin b) \<Rightarrow> True
      | (PosInf, NegInf) \<Rightarrow> True
      | _ \<Rightarrow> False)"

definition js_ge :: "jsnum \<Rightarrow> jsnum \<Rightarrow> bool" where
  "js_ge x y = (x \<noteq> NaN \<and> y \<noteq> NaN \<and> (x = y \<or> js_gt x y))"

text \<open>\<open>Math.round\<close>: the nearest integer, the larger one at a tie.\<close>

definition math_round :: "jsnum \<Rightarrow> jsnum" where
  "math_round x = (case x of Fin a \<Rightarrow> Fin (of_int \<lfloor>a + 1 / 2\<rfloor>) | _ \<Rightarrow> x)"

text \<open>The value of a string of decimal digits, and of digits in base 16.\<close>

definition digits_val :: "jsstring \<Rightarrow> nat" where
  "digits_val ds = foldl (\<lambda>a c. 10 * a + (c - 48)) 0 ds"

definition is_hex_digit :: "nat \<Rightarrow> bool" where
  "is_hex_digit c = (is_digit c \<or> (65 \<le> c \<and> c \<le> 70) \<or> (97 \<le> c \<and> c \<le> 102))"

definition hex_val :: "jsstring \<Rightarrow> nat" where
  "hex_val ds = foldl (\<lambda>a c. 16 * a + (if is_digit c then c - 48 else if c \<le> 70 then c - 55 else c - 87)) 0 ds"

text \<open>
  \<open>parseFloat\<close>: leading white space is skipped, then the longest prefix that is a decimal
  literal is read: a sign, then \<open>Infinity\<close> or digits with an optional fraction and an
  optional exponent. Without such a prefix the result is \<open>NaN\<close>.
\<close>

definition exponent_part :: "jsstring \<Rightarrow> int" where
  "exponent_part r =
     (if r \<noteq> [] \<and> (hd r = cc CHR ''e'' \<or> hd r = cc CHR ''E'')
      then (let r1 = tl r;
                neg = (r1 \<noteq> [] \<and> hd r1 = cc CHR ''-'');
                r2 = (if r1 \<noteq> [] \<and> (hd r1 = cc CHR ''-'' \<or> hd r1 = cc CHR ''+'') then tl r1 else r1);
                ds = takeWhile is_digit r2
            in if ds = [] then 0 else if neg then - int (digits_val ds) else int (digits_val ds))
      else 0)"

definition unsigned_decimal :: "jsstring \<Rightarrow> rat option" where
  "unsigned_decimal u =
     (let ip = takeWhile is_digit u; r1 = dropWhile is_digit u;
          dot = (r1 \<noteq> [] \<and> hd r1 = cc CHR ''.'');
          fp = (if dot then takeWhile is_digit (tl r1) else []);
          r2 = (if dot then dropWhile is_digit (tl r1) else r1)
      in if ip = [] \<and> fp = [] then None
         else Some (of_nat (digits_val (ip @ fp)) * pow10 (exponent_part r2 - int (length fp))))"

definition parseFloat :: "jsstring \<Rightarrow> jsnum" where
  "parseFloat s =
     (let t = dropWhile is_space s;
          neg = (t \<noteq> [] \<and> hd t = cc CHR ''-'');
          u = (if t \<noteq> [] \<and> (hd t = cc CHR ''-'' \<or> hd t = cc CHR ''+'') then tl t else t)
      in if starts_with u (str ''Infinity'') then (if neg then NegInf else PosInf)
         else (case unsigned_decimal u of
                 None \<Rightarrow> NaN
               | Some q \<Rightarrow> round_double (if neg then - q else q)))"

text \<open>
  \<open>parseInt\<close> without a radix: white space, a sign, then base 16 after \<open>0x\<close> or \<open>0X\<close> and
  base 10 otherwise; the longest run of digits is read, and none gives \<open>NaN\<close>.
\<close>

definition parseInt :: "jsstring \<Rightarrow> jsnum" where
  "parseInt s =
     (let t = dropWhile is_space s;
          neg = (t \<noteq> [] \<and> hd t = cc CHR ''-'');
          u = (if t \<noteq> [] \<and> (hd t = cc CHR ''-'' \<or> hd t = cc CHR ''+'') then tl t else t);
          hex = (starts_with u (str ''0x'') \<or> starts_with u (str ''0X''));
          ds = (if hex then takeWhile is_hex_digit (drop 2 u) else takeWhile is_digit u);
          v = (if hex then hex_val ds else digits_val ds)
      in if ds = [] then NaN
         else round_double (if neg then - of_nat v else of_nat v))"

text \<open>
  \<open>Number::toString\<close> in base 10. For a positive finite \<open>x\<close> the standard takes integers
  \<open>n\<close>, \<open>k\<close>, \<open>s\<close> with \<open>k\<close> as small as possible such that \<open>s\<close> has \<open>k\<close> digits and
  \<open>s * 10^(n-k)\<close> is \<open>x\<close> as a Number; among several \<open>s\<close> the one nearest to \<open>x\<close>, the
  even one at a tie. For \<open>k\<close> digits only the two multiples of \<open>10^(n-k)\<close> around \<open>x\<close> can
  qualify. Seventeen digits tell any two doubles apart.
\<close>

definition digit_candidate :: "rat \<Rightarrow> int \<Rightarrow> nat \<Rightarrow> (nat \<times> int) option" where
  "digit_candidate a n0 k =
     (let scale = pow10 (n0 - int k);
          lo = nat \<lfloor>a / scale\<rfloor>;
          ok = filter (\<lambda>s. round_double (of_nat s * scale) = Fin a) [lo, lo + 1];
          pick = (case ok of
                    [] \<Rightarrow> None
                  | [s] \<Rightarrow> Some s
                  | s1 # s2 # _ \<Rightarrow>
                      (let d1 = a - of_nat s1 * scale; d2 = of_nat s2 * scale - a
                       in if d1 < d2 then Some s1 else if d2 < d1 then Some s2
                          else if even s1 then Some s1 else Some s2))
      in case pick of
           None \<Rightarrow> None
         | Some s \<Rightarrow> if s = 10 ^ k then Some (10 ^ (k - 1), n0 + 1) else Some (s, n0))"

fun shortest_digits :: "rat \<Rightarrow> int \<Rightarrow> nat \<Rightarrow> nat \<Rightarrow> nat \<times> int" where
  "shortest_digits a n0 k 0 = (nat \<lfloor>a / pow10 (n0 - int k)\<rfloor>, n0)"
| "shortest_digits a n0 k (Suc fuel) =
     (case digit_candidate a n0 k of
        Some r \<Rightarrow> r
      | None \<Rightarrow> shortest_digits a n0 (Suc k) fuel)"

definition exponent_string :: "int \<Rightarrow> jsstring" where
  "exponent_string e = str ''e'' @ (if 0 \<le> e then str ''+'' else str ''-'') @ digits_of (nat \<bar>e\<bar>)"

definition positive_toString :: "rat \<Rightarrow> jsstring" where
  "positive_toString a =
     (let sn = shortest_digits a (floor_log 10 a + 1) 1 17;
          ds = digits_of (fst sn); k = int (length ds); n = snd sn
      in if k \<le> n \<and> n \<le> 21 then ds @ replicate (nat (n - k)) (cc CHR ''0'')
         else if 0 < n \<and> n \<le> 21 then take (nat n) ds @ str ''.'' @ drop (nat n) ds
         else if - 6 < n \<and> n \<le> 0 then str ''0.'' @ replicate (nat (- n)) (cc CHR ''0'') @ ds
         else if k = 1 then ds @ exponent_string (n - 1)
         else take 1 ds @ str ''.'' @ drop 1 ds @ exponent_string (n - 1))"

definition num_toString :: "jsnum \<Rightarrow> jsstring" where
  "num_toString x =
     (case x of
        NaN \<Rightarrow> str ''NaN''
      | PosInf \<Rightarrow> str ''Infinity''
      | NegInf \<Rightarrow> str ''-Infinity''
      | Fin q \<Rightarrow> if q = 0 then str ''0''
                 else if q < 0 then str ''-'' @ positive_toString (- q)
                 else positive_toString q)"

text \<open>
  \<open>x.toFixed(2)\<close>: a value that is not finite, or is \<open>10^21\<close> or more in magnitude, is
  printed by \<open>Number::toString\<close>. Otherwise \<open>n\<close> is the integer nearest to \<open>100 * x\<close>, the
  larger one at a tie, printed with a point before its last two digits.
\<close>

definition toFixed2 :: "jsnum \<Rightarrow> jsstring" where
  "toFixed2 x =
     (case x of
        Fin q \<Rightarrow>
          if 10 ^ 21 \<le> \<bar>q\<bar> then num_toString x
          else (let m = digits_of (nat \<lfloor>\<bar>q\<bar> * 100 + 1 / 2\<rfloor>);
                    m' = (if length m \<le> 2 then replicate (3 - length m) (cc CHR ''0'') @ m else m)
                in (if q < 0 then str ''-'' else []) @ take (length m' - 2) m' @ str ''.''
                   @ drop (length m' - 2) m')
      | _ \<Rightarrow> num_toString x)"

section \<open>Pricing\<close>

record pricing =
  offerPrice :: "jsstring option"
  originalPrice :: "jsstring option"
  offerPercentage :: "jsstring option"
  amountSaved :: "jsstring option"

text \<open>
  \<open>price.match(/\$[\d,]+\.?\d*/)\<close> as a test: the pattern is not anchored and all but
  its first two items may match nothing, so it matches exactly when a dollar sign is
  followed by a digit or a comma somewhere.
\<close>

fun price_shape :: "jsstring \<Rightarrow> bool" where
  "price_shape (a # b # cs) = ((a = cc CHR ''$'' \<and> digit_or_comma b) \<or> price_shape (b # cs))"
| "price_shape _ = False"

text \<open>
  \<open>text.match(/^\$[\d,]+\.?\d*$/)\<close>: the whole text is a dollar sign, one or more digits
  or commas, an optional point, and digits.
\<close>

definition whole_price :: "jsstring \<Rightarrow> bool" where
  "whole_price s =
     (case s of
        [] \<Rightarrow> False
      | c # cs \<Rightarrow>
          (let r1 = dropWhile digit_or_comma cs;
               r2 = (if r1 \<noteq> [] \<and> hd r1 = cc CHR ''.'' then tl r1 else r1)
           in c = cc CHR ''$'' \<and> takeWhile digit_or_comma cs \<noteq> [] \<and> list_all is_digit r2))"

text \<open>\<open>discount.match(/\d+%/)\<close> as a test: a digit followed by a percent sign.\<close>

fun discount_shape :: "jsstring \<Rightarrow> bool" where
  "discount_shape (a # b # cs) = ((is_digit a \<and> b = cc CHR ''%'') \<or> discount_shape (b # cs))"
| "discount_shape _ = False"

definition current_selectors :: "jsstring list" where
  "current_selectors = [str ''.a-price.a-text-normal .a-offscreen'',
     str ''.a-price-current .a-offscreen'', str ''.a-price .a-offscreen'',
     str ''#apex_desktop .a-price .a-offscreen'', str ''.a-price-whole'',
     str ''#price_inside_buybox'', str ''.a-price-symbol + .a-price-whole'']"

definition original_selectors :: "jsstring list" where
  "original_selectors = [str ''.a-price.a-text-price .a-offscreen'',
     str ''.a-text-strike .a-offscreen'', str ''.a-price-was .a-offscreen'',
     str ''.a-text-price'', str ''#listPrice .a-offscreen'', str ''[data-cy=\"original-price\"]'']"

definition discount_selectors :: "jsstring list" where
  "discount_selectors = [str ''.a-badge-text'', str ''.savingsPercentage'',
     str ''.a-size-large.a-color-price'', str ''[data-cy=\"discount-percentage\"]'',
     str ''.a-text-bold.a-color-price'']"

text \<open>
  The three loops over selectors: the first selector whose first node's trimmed text is
  not empty and passes the test gives the value; the empty string stands for none.
\<close>

fun price_chain :: "(jsstring \<Rightarrow> bool) \<Rightarrow> document \<Rightarrow> jsstring list \<Rightarrow> jsstring" where
  "price_chain ok doc [] = []"
| "price_chain ok doc (selector # rest) =
     (let price = trim (first_text (doc selector))
      in if price \<noteq> [] \<and> ok price then price else price_chain ok doc rest)"

definition current_chain :: "document \<Rightarrow> jsstring" where
  "current_chain doc = price_chain price_shape doc current_selectors"

definition original_chain :: "document \<Rightarrow> jsstring \<Rightarrow> jsstring" where
  "original_chain doc currentPrice =
     price_chain (\<lambda>price. price_shape price \<and> price \<noteq> currentPrice) doc original_selectors"

definition discount_chain :: "document \<Rightarrow> jsstring" where
  "discount_chain doc = price_chain discount_shape doc discount_selectors"

text \<open>
  Method 2 of the source: the \<open>span\<close> nodes whose trimmed text is a whole price shorter
  than 15 code units; the first of them whose text passes the price test is taken.
\<close>

fun span_price :: "node list \<Rightarrow> jsstring" where
  "span_price [] = []"
| "span_price (el # els) =
     (let price = trim (ntext el) in if price_shape price then price else span_price els)"

definition span_fallback :: "document \<Rightarrow> jsstring" where
  "span_fallback doc =
     span_price (filter (\<lambda>el. whole_price (trim (ntext el)) \<and> length (trim (ntext el)) < 15)
                   (doc (str ''span'')))"

text \<open>The current price after the selectors and, when they give none, the spans.\<close>

definition current_price :: "document \<Rightarrow> jsstring" where
  "current_price doc = (if current_chain doc = [] then span_fallback doc else current_chain doc)"

text \<open>\<open>price.replace(/[^0-9.]/g, '')\<close>.\<close>

definition strip_non_numeric :: "jsstring \<Rightarrow> jsstring" where
  "strip_non_numeric s = filter (\<lambda>c. is_digit c \<or> c = cc CHR ''.'') s"

text \<open>
  The savings step. Nothing in its \<open>try\<close> block can throw: \<open>replace\<close>, \<open>parseFloat\<close>,
  the arithmetic and \<open>toFixed(2)\<close> are total on strings and numbers.
\<close>

definition add_savings :: "pricing \<Rightarrow> pricing" where
  "add_savings p =
     (if truthy (originalPrice p) \<and> truthy (offerPrice p) \<and> originalPrice p \<noteq> offerPrice p
      then (let originalNum = parseFloat (strip_non_numeric (the (originalPrice p)));
                offerNum = parseFloat (strip_non_numeric (the (offerPrice p)))
            in if js_gt originalNum offerNum
               then (let saved = js_sub originalNum offerNum;
                         p1 = p\<lparr> amountSaved := Some (toFixed2 saved) \<rparr>
                     in if \<not> truthy (offerPercentage p1)
                        then p1\<lparr> offerPercentage :=
                               Some (num_toString (math_round (js_mul (js_div saved originalNum) (Fin 100)))
                                     @ str ''% off'') \<rparr>
                        else p1)
               else p)
      else p)"

text \<open>
  Method 3 of the source reads the scripts of type \<open>application/ld+json\<close>. The JSON
  library is not part of the embedding: \<open>ld_price\<close> stands for what one round of the loop
  computes from the text of a script, that is \<open>JSON.parse\<close>, the test
  \<open>data.offers && data.offers.price\<close> and the template literal of the price. It is \<open>None\<close>
  when parsing throws (the exception is caught) or the test fails. Every script that gives
  a price overwrites \<open>offerPrice\<close>.
\<close>

definition json_ld_prices :: "(jsstring \<Rightarrow> jsstring option) \<Rightarrow> document \<Rightarrow> pricing \<Rightarrow> pricing" where
  "json_ld_prices ld_price doc p =
     foldl (\<lambda>q script. case ld_price (text_of [script]) of
                          Some v \<Rightarrow> q\<lparr> offerPrice := Some v \<rparr>
                        | None \<Rightarrow> q)
       p (doc (str ''script[type=\"application/ld+json\"]''))"

definition extractPricing :: "(jsstring \<Rightarrow> jsstring option) \<Rightarrow> document \<Rightarrow> pricing" where
  "extractPricing ld_price doc =
     (let chainPrice = current_chain doc;
          originalPrice' = original_chain doc chainPrice;
          currentPrice = (if chainPrice = [] then span_fallback doc else chainPrice);
          p0 = \<lparr> offerPrice = (if currentPrice \<noteq> [] then Some currentPrice else None),
                 originalPrice = (if originalPrice' \<noteq> [] then Some originalPrice'
                                  else if currentPrice \<noteq> [] then Some currentPrice else None),
                 offerPercentage = (if discount_chain doc \<noteq> [] then Some (discount_chain doc) else None),
                 amountSaved = None \<rparr>;
          p1 = add_savings p0
      in if currentPrice = [] then json_ld_prices ld_price doc p1 else p1)"

section \<open>Tags and the product record\<close>

text \<open>
  \<open>Object.assign(productData, pricing)\<close> and \<open>Object.assign(productData, rating)\<close>
  copy the keys of the two objects into the record. The embedding keeps the two objects
  as the parts \<open>price_fields\<close> and \<open>rating_fields\<close> of the record, so that
  \<open>offerPrice (price_fields p)\<close> is the \<open>offerPrice\<close> of the record \<open>p\<close>. A key that was
  never set is \<open>None\<close>.
\<close>

record product =
  title :: jsstring
  brand :: jsstring
  model :: jsstring
  asin :: jsstring
  price_fields :: pricing
  rating_fields :: rating_info
  colors :: "jsstring list"
  aboutItem :: jsstring
  technicalData :: jsstring
  images :: "image list"
  categories :: "jsstring list"
  tags :: "jsstring list"

definition keywordTags :: "(jsstring \<times> jsstring) list" where
  "keywordTags = [(str ''wireless'', str ''Wireless''), (str ''bluetooth'', str ''Bluetooth''),
     (str ''smart'', str ''Smart Device''), (str ''premium'', str ''Premium''),
     (str ''professional'', str ''Professional''), (str ''portable'', str ''Portable''),
     (str ''waterproof'', str ''Waterproof''), (str ''rechargeable'', str ''Rechargeable'')]"

definition add_keyword_tag :: "jsstring \<Rightarrow> jsstring list \<Rightarrow> jsstring \<times> jsstring \<Rightarrow> jsstring list" where
  "add_keyword_tag t ts kv =
     (if js_includes t (fst kv) \<and> snd kv \<notin> set ts then ts @ [snd kv] else ts)"

text \<open>\<open>generateTags\<close> reads the brand, the rating, the discount and the title of the record.\<close>

definition generateTags :: "product \<Rightarrow> jsstring list" where
  "generateTags productData =
     (let t1 = (if brand productData \<noteq> [] then [brand productData] else []);
          t2 = (if truthy (rating (rating_fields productData))
                   \<and> js_ge (parseFloat (the (rating (rating_fields productData)))) (Fin 4)
                then t1 @ [str ''Highly Rated''] else t1);
          t3 = (if truthy (offerPercentage (price_fields productData))
                then (let discount = parseInt (the (offerPercentage (price_fields productData)))
                      in if js_ge discount (Fin 50) then t2 @ [str ''Great Deal'']
                         else if js_ge discount (Fin 20) then t2 @ [str ''Good Deal'']
                         else t2)
                else t2)
      in take 8 (foldl (add_keyword_tag (toLowerCase (title productData))) t3 keywordTags))"

section \<open>The extraction and the request handler\<close>

text \<open>
  The body of \<open>scrapeProduct\<close> from \<open>cheerio.load\<close> to \<open>return productData\<close>: the
  extraction of a record from a parsed document and the URL. \<open>generateTags\<close> is called on
  the record before its key \<open>tags\<close> is set.
\<close>

definition extractProduct :: "(jsstring \<Rightarrow> jsstring option) \<Rightarrow> document \<Rightarrow> jsstring \<Rightarrow> product" where
  "extractProduct ld_price doc u =
     (let productData = \<lparr> title = extractTitle doc, brand = extractBrand doc,
            model = extractModel doc, asin = extractASIN doc u,
            price_fields = extractPricing ld_price doc, rating_fields = extractRating doc,
            colors = extractColors doc, aboutItem = extractAboutItem doc,
            technicalData = extractTechnicalData doc, images = extractImages doc,
            categories = extractCategories doc, tags = [] \<rparr>
      in productData\<lparr> tags := generateTags productData \<rparr>)"

text \<open>The values a JSON request body can hold.\<close>

datatype jsvalue = Undefined | Null | Bool bool | Number jsnum | Str jsstring
  | Arr "jsvalue list" | Obj "(jsstring \<times> jsvalue) list"

definition js_truthy :: "jsvalue \<Rightarrow> bool" where
  "js_truthy v =
     (case v of
        Undefined \<Rightarrow> False | Null \<Rightarrow> False | Bool b \<Rightarrow> b
      | Number n \<Rightarrow> n \<noteq> NaN \<and> n \<noteq> Fin 0
      | Str s \<Rightarrow> s \<noteq> []
      | _ \<Rightarrow> True)"

text \<open>
  The page fetcher (axios) and the JSON reader are the environment of the scraper: \<open>fetch\<close>
  gives the parsed document of a URL, or the message of the error it throws.
\<close>

record env =
  fetch :: "jsvalue \<Rightarrow> jsstring + document"
  ld_price :: "jsstring \<Rightarrow> jsstring option"

text \<open>
  \<open>scrapeProduct\<close>: any error is caught and thrown again with a prefix; \<open>Inl\<close> is the
  message of the error thrown. A URL that is not a string has no method \<open>match\<close>, which
  \<open>extractASIN\<close> calls.
\<close>

definition scrapeProduct :: "env \<Rightarrow> jsvalue \<Rightarrow> jsstring + product" where
  "scrapeProduct e v =
     (case fetch e v of
        Inl msg \<Rightarrow> Inl (str ''Failed to scrape product: '' @ msg)
      | Inr doc \<Rightarrow>
          (case v of
             Str u \<Rightarrow> Inr (extractProduct (ld_price e) doc u)
           | Undefined \<Rightarrow> Inl (str ''Failed to scrape product: ''
                                @ str ''Cannot read properties of undefined (reading 'match')'')
           | Null \<Rightarrow> Inl (str ''Failed to scrape product: ''
                           @ str ''Cannot read properties of null (reading 'match')'')
           | _ \<Rightarrow> Inl (str ''Failed to scrape product: '' @ str ''url.match is not a function'')))"

datatype body = Error jsstring | Data product

record response =
  status :: nat
  body :: body

text \<open>
  \<open>url.includes('amazon.')\<close> on the value of the request: the substring test on a
  string, the membership test on an array, and a \<open>TypeError\<close> (\<open>None\<close>) on a number, a
  boolean or an object, none of which has a callable \<open>includes\<close>.
\<close>

definition url_includes :: "jsvalue \<Rightarrow> jsstring \<Rightarrow> bool option" where
  "url_includes v sub =
     (case v of
        Str s \<Rightarrow> Some (js_includes s sub)
      | Arr xs \<Rightarrow> Some (Str sub \<in> set xs)
      | _ \<Rightarrow> None)"

text \<open>
  The handler of \<open>POST /api/scrape\<close>. The request is the object \<open>req.body\<close>, a map from
  keys to values. The result is the response with the list of the values the scraper was
  called on.
\<close>

definition scrape_handler :: "env \<Rightarrow> (jsstring \<rightharpoonup> jsvalue) \<Rightarrow> response \<times> jsvalue list" where
  "scrape_handler e req_body =
     (let v = (case req_body (str ''url'') of None \<Rightarrow> Undefined | Some x \<Rightarrow> x)
      in if \<not> js_truthy v then (\<lparr> status = 400, body = Error (str ''URL is required'') \<rparr>, [])
         else (case url_includes v (str ''amazon.'') of
                 None \<Rightarrow> (\<lparr> status = 500, body = Error (str ''url.includes is not a function'') \<rparr>, [])
               | Some False \<Rightarrow>
                   (\<lparr> status = 400, body = Error (str ''Please provide a valid Amazon product URL'') \<rparr>, [])
               | Some True \<Rightarrow>
                   (case scrapeProduct e v of
                      Inl msg \<Rightarrow>
                        (\<lparr> status = 500,
                           body = Error (if msg \<noteq> [] then msg else str ''Failed to scrape product'') \<rparr>, [v])
                    | Inr p \<Rightarrow> (\<lparr> status = 200, body = Data p \<rparr>, [v]))))"

section \<open>Example pages\<close>

text \<open>
  Pages used to run the definitions. Each is given by the HTML it stands for and answers
  the queries as cheerio does on that HTML. They are fetched from \<open>product_url\<close>, which
  has no ASIN segment (no slash closes its last segment).
\<close>

definition product_url :: jsstring where
  "product_url = str ''https://www.amazon.com/dp/B08N5WRWNW''"

definition text_node :: "string \<Rightarrow> node" where
  "text_node t = Node (str t) (\<lambda>_. None) (\<lambda>_. [])"

text \<open>The row \<^verbatim>\<open><tr><th>label</th><td>value</td></tr>\<close>.\<close>

definition table_row :: "string \<Rightarrow> string \<Rightarrow> node" where
  "table_row label v =
     Node (str label @ str v) (\<lambda>_. None)
       (\<lambda>sel. if sel = str ''td:first-child, th:first-child'' then [text_node label]
              else if sel = str ''td:last-child, td:nth-child(2)'' then [text_node v]
              else if sel = str ''td:last-child'' then [text_node v]
              else [])"

text \<open>
  \<^verbatim>\<open><table id="tech"><tbody><tr><th>Brand</th><td>Acme</td></tr></tbody></table>
  <table class="a-keyvalue"><tbody><tr><th>Color</th><td>Red</td></tr></tbody></table>\<close>
\<close>

definition tech_page :: document where
  "tech_page sel =
     (if sel = str ''#tech tbody tr'' then [table_row ''Brand'' ''Acme'']
      else if sel = str ''#tech tbody tr, #productDetails_detailBullets_sections1 tbody tr''
      then [table_row ''Brand'' ''Acme'']
      else if sel = str ''.a-keyvalue tbody tr'' then [table_row ''Color'' ''Red'']
      else [])"

text \<open>
  \<^verbatim>\<open><div id="wayfinding-breadcrumbs_container"><a>Electronics</a></div>
  <div id="nav-subnav"><a>Best Sellers</a></div>\<close>
\<close>

definition breadcrumb_page :: document where
  "breadcrumb_page sel =
     (if sel = str ''#wayfinding-breadcrumbs_container a'' then [text_node ''Electronics'']
      else if sel = str ''#nav-subnav a'' then [text_node ''Best Sellers'']
      else [])"

text \<open>
  \<^verbatim>\<open><span class="a-icon-alt">4.5 out of 5 stars</span>
  <span id="acrCustomerReviewText">1,234 ratings</span>\<close>
\<close>

definition rating_page :: document where
  "rating_page sel =
     (if sel = str ''.a-icon-alt'' then [text_node ''4.5 out of 5 stars'']
      else if sel = str ''#acrCustomerReviewText'' then [text_node ''1,234 ratings'']
      else if sel = str ''span'' then [text_node ''4.5 out of 5 stars'', text_node ''1,234 ratings'']
      else [])"

text \<open>
  The text of the first matching node of a chain of selectors: the first node of the first
  selector that matches a node at all.
\<close>

fun first_node_text :: "document \<Rightarrow> jsstring list \<Rightarrow> jsstring option" where
  "first_node_text doc [] = None"
| "first_node_text doc (selector # rest) =
     (case doc selector of [] \<Rightarrow> first_node_text doc rest | n # _ \<Rightarrow> Some (ntext n))"

text \<open>
  \<^verbatim>\<open><input type="hidden" id="ASIN" name="ASIN" value="B000000001">\<close>
\<close>

definition asin_input_page :: document where
  "asin_input_page sel =
     (if sel = str ''#ASIN'' \<or> sel = str ''input[name=\"ASIN\"]''
      then [Node [] (\<lambda>a. if a = str ''value'' then Some (str ''B000000001'')
                          else if a = str ''id'' \<or> a = str ''name'' then Some (str ''ASIN'')
                          else if a = str ''type'' then Some (str ''hidden'')
                          else None) (\<lambda>_. [])]
      else [])"

text \<open>\<^verbatim>\<open><div class="a-text-price">$99.99</div>\<close>: only the chain of the original price matches.\<close>

definition original_only_page :: document where
  "original_only_page sel = (if sel = str ''.a-text-price'' then [text_node ''$99.99''] else [])"

text \<open>\<^verbatim>\<open><div id="price_inside_buybox">$79.99</div>\<close>: only the chain of the current price matches.\<close>

definition offer_only_page :: document where
  "offer_only_page sel = (if sel = str ''#price_inside_buybox'' then [text_node ''$79.99''] else [])"

text \<open>The page without any node, and an environment that serves it and reads no JSON.\<close>

definition empty_page :: document where
  "empty_page sel = []"

definition no_json :: "jsstring \<Rightarrow> jsstring option" where
  "no_json t = None"

definition empty_page_env :: env where
  "empty_page_env = \<lparr> fetch = (\<lambda>v. Inr empty_page), ld_price = no_json \<rparr>"


text \<open>
  \<^verbatim>\<open><a id="bylineInfo">Highly Rated</a>
  <span class="a-icon-alt">4.6 out of 5 stars</span>\<close>
\<close>

definition highly_rated_page :: document where
  "highly_rated_page sel =
     (if sel = str ''#bylineInfo'' then [text_node ''Highly Rated'']
      else if sel = str ''.a-icon-alt'' then [text_node ''4.6 out of 5 stars'']
      else if sel = str ''span'' then [text_node ''4.6 out of 5 stars'']
      else [])"

text \<open>
  A record with the title \<open>Premium Wireless Bluetooth Speaker\<close>, the rating \<open>4.6\<close>, no
  discount, and the brand \<open>b\<close>.
\<close>

definition speaker_record :: "jsstring \<Rightarrow> product" where
  "speaker_record b =
     \<lparr> title = str ''Premium Wireless Bluetooth Speaker'', brand = b, model = [], asin = [],
       price_fields = \<lparr> offerPrice = None, originalPrice = None, offerPercentage = None,
                        amountSaved = None \<rparr>,
       rating_fields = \<lparr> rating = Some (str ''4.6''), ratingCount = None \<rparr>,
       colors = [], aboutItem = [], technicalData = [], images = [], categories = [],
       tags = [] \<rparr>"

text \<open>
  \<^verbatim>\<open><div id="price_inside_buybox">$75</div><div class="a-text-price">$100</div>\<close>
\<close>

definition sale_page :: document where
  "sale_page sel =
     (if sel = str ''#price_inside_buybox'' then [text_node ''$75'']
      else if sel = str ''.a-text-price'' then [text_node ''$100'']
      else [])"

text \<open>
  \<^verbatim>\<open><div id="price_inside_buybox">$1</div>
  <div class="a-text-price">$1000000000000000000000</div>\<close>
\<close>

definition huge_price_page :: document where
  "huge_price_page sel =
     (if sel = str ''#price_inside_buybox'' then [text_node ''$1'']
      else if sel = str ''.a-text-price'' then [text_node ''$1000000000000000000000'']
      else [])"

text \<open>
  What the JSON reader gives on the scripts of the example pages. On the text
  \<^verbatim>\<open>{"offers":{"price":75}}\<close> the value of \<open>JSON.parse\<close> has \<open>offers.price\<close> equal to the
  number 75, which the template literal writes \<open>75\<close>. On the text \<^verbatim>\<open>{"name":"Widget"}\<close> it
  has no \<open>offers\<close>. No other text is a script of an example page.
\<close>

definition example_json :: "jsstring \<Rightarrow> jsstring option" where
  "example_json t = (if t = str ''{\"offers\":{\"price\":75}}'' then Some (str ''75'') else None)"

text \<open>
  \<^verbatim>\<open><div class="a-text-price">$100</div>
  <script type="application/ld+json">{"offers":{"price":75}}</script>\<close>
\<close>

definition json_price_page :: document where
  "json_price_page sel =
     (if sel = str ''.a-text-price'' then [text_node ''$100'']
      else if sel = str ''script[type=\"application/ld+json\"]''
      then [text_node ''{\"offers\":{\"price\":75}}'']
      else [])"

text \<open>\<^verbatim>\<open><span>$75</span><div class="a-text-price">$100</div>\<close>\<close>

definition span_price_page :: document where
  "span_price_page sel =
     (if sel = str ''span'' then [text_node ''$75'']
      else if sel = str ''.a-text-price'' then [text_node ''$100'']
      else [])"

text \<open>
  \<^verbatim>\<open><div class="a-text-price">$99.99</div>
  <script type="application/ld+json">{"name":"Widget"}</script>\<close>
\<close>

definition original_script_page :: document where
  "original_script_page sel =
     (if sel = str ''.a-text-price'' then [text_node ''$99.99'']
      else if sel = str ''script[type=\"application/ld+json\"]''
      then [text_node ''{\"name\":\"Widget\"}'']
      else [])"

text \<open>
  For stating the savings: the two numbers that the savings step parses, their difference
  as the step computes it, and a non-negative rational rounded to two decimals (half
  up) and written with its integer part, a point and two digits.
\<close>

definition original_number :: "document \<Rightarrow> jsnum" where
  "original_number doc = parseFloat (strip_non_numeric (original_chain doc (current_chain doc)))"

definition offer_number :: "document \<Rightarrow> jsnum" where
  "offer_number doc = parseFloat (strip_non_numeric (current_price doc))"

definition saved_number :: "document \<Rightarrow> jsnum" where
  "saved_number doc = js_sub (original_number doc) (offer_number doc)"

definition two_decimals :: "rat \<Rightarrow> jsstring" where
  "two_decimals q =
     (let n = nat \<lfloor>q * 100 + 1 / 2\<rfloor>
      in digits_of (n div 100) @ str ''.'' @ [48 + (n div 10) mod 10, 48 + n mod 10])"

section \<open>Properties: the fields of the record\<close>

text \<open>Each key of the extracted record is what its extractor returns.\<close>

lemma extractProduct_fields:
  "title (extractProduct ld doc u) = extractTitle doc"
  "brand (extractProduct ld doc u) = extractBrand doc"
  "model (extractProduct ld doc u) = extractModel doc"
  "asin (extractProduct ld doc u) = extractASIN doc u"
  "price_fields (extractProduct ld doc u) = extractPricing ld doc"
  "rating_fields (extractProduct ld doc u) = extractRating doc"
  "colors (extractProduct ld doc u) = extractColors doc"
  "aboutItem (extractProduct ld doc u) = extractAboutItem doc"
  "technicalData (extractProduct ld doc u) = extractTechnicalData doc"
  "images (extractProduct ld doc u) = extractImages doc"
  "categories (extractProduct ld doc u) = extractCategories doc"
  by (simp_all add: extractProduct_def)

section \<open>Properties: the ASIN of the URL\<close>

lemma split_on_nonempty: "split_on d s \<noteq> []"
  by (induction s) (auto split: list.splits)

lemma split_on_append: "d \<notin> set seg \<Longrightarrow> split_on d (seg @ d # rest) = seg # split_on d rest"
  by (induction seg) (auto split: list.splits)

lemma split_on_no_delim: "d \<notin> set s \<Longrightarrow> split_on d s = [s]"
  by (induction s) (auto split: list.splits)

lemma slash_not_alnum: "\<not> is_upper_alnum (cc CHR ''/'')"
  by (simp add: is_upper_alnum_def is_upper_def is_digit_def)

text \<open>
  At a position that starts a segment \<open>p\<close> ended by a slash, the pattern matches exactly
  when \<open>p\<close> is ten code units of \<open>[A-Z0-9]\<close>: a shorter segment puts the slash among the
  ten, a longer one puts a code unit of the segment where the closing slash must be.
\<close>

lemma asin_at_iff:
  assumes "cc CHR ''/'' \<notin> set p"
  shows "asin_at (p @ cc CHR ''/'' # rest) \<longleftrightarrow> is_asin p"
proof
  assume a: "asin_at (p @ cc CHR ''/'' # rest)"
  have "length p = 10"
  proof (rule ccontr)
    assume n: "length p \<noteq> 10"
    show False
    proof (cases "length p < 10")
      case True
      then obtain k where k: "10 - length p = Suc k"
        by (cases "10 - length p") auto
      from a have "list_all is_upper_alnum (take (10 - length p) (cc CHR ''/'' # rest))"
        by (simp add: asin_at_def)
      then have "is_upper_alnum (cc CHR ''/'')"
        unfolding k by simp
      then show False using slash_not_alnum by simp
    next
      case False
      with n have "10 < length p" by simp
      then have "(p @ cc CHR ''/'' # rest) ! 10 = p ! 10" "p ! 10 \<in> set p"
        by (auto simp: nth_append)
      with a assms show False by (auto simp: asin_at_def)
    qed
  qed
  with a show "is_asin p" by (auto simp: asin_at_def is_asin_def)
next
  assume "is_asin p"
  then show "asin_at (p @ cc CHR ''/'' # rest)"
    by (auto simp: asin_at_def is_asin_def nth_append)
qed

lemma asin_at_take:
  "cc CHR ''/'' \<notin> set p \<Longrightarrow> asin_at (p @ cc CHR ''/'' # rest) \<Longrightarrow>
   take 10 (p @ cc CHR ''/'' # rest) = p"
  using asin_at_iff[of p rest] by (simp add: is_asin_def)

lemma asin_at_has_slash: "asin_at cs \<Longrightarrow> cc CHR ''/'' \<in> set cs"
proof -
  assume a: "asin_at cs"
  then have "10 < length cs" "cs ! 10 = cc CHR ''/''" by (auto simp: asin_at_def)
  then show ?thesis using nth_mem[of 10 cs] by simp
qed

lemma find_asin_step:
  "List.find is_asin (butlast (split_on (cc CHR ''/'') cs)) =
     (if asin_at cs then Some (take 10 cs)
      else List.find is_asin (butlast (tl (split_on (cc CHR ''/'') cs))))"
proof (cases "cc CHR ''/'' \<in> set cs")
  case False
  then have "\<not> asin_at cs" using asin_at_has_slash by blast
  with False show ?thesis by (simp add: split_on_no_delim)
next
  case True
  then obtain p rest where cs: "cs = p @ cc CHR ''/'' # rest" "cc CHR ''/'' \<notin> set p"
    by (meson split_list_first)
  have sp: "split_on (cc CHR ''/'') cs = p # split_on (cc CHR ''/'') rest"
    unfolding cs(1) using cs(2) by (rule split_on_append)
  have a1: "asin_at cs \<longleftrightarrow> is_asin p"
    unfolding cs(1) using cs(2) by (rule asin_at_iff)
  have a2: "asin_at cs \<Longrightarrow> take 10 cs = p"
    unfolding cs(1) using cs(2) by (rule asin_at_take)
  show ?thesis
  proof (cases "asin_at cs")
    case True
    with a1 a2 sp show ?thesis by (simp add: split_on_nonempty)
  next
    case False
    with a1 sp show ?thesis by (simp add: split_on_nonempty)
  qed
qed

text \<open>The pattern finds the first inner segment that is ten code units of \<open>[A-Z0-9]\<close>.\<close>

lemma url_asin_match_segments:
  "url_asin_match s = List.find is_asin (inner_segments s)"
  unfolding inner_segments_def
proof (induction s)
  case Nil
  show ?case by simp
next
  case (Cons c cs)
  show ?case
  proof (cases "c = cc CHR ''/''")
    case True
    then show ?thesis using Cons.IH find_asin_step[of cs] by simp
  next
    case False
    then show ?thesis using Cons.IH by (simp split: list.splits add: split_on_nonempty)
  qed
qed

lemma find_hd_filter: "filter P xs \<noteq> [] \<Longrightarrow> List.find P xs = Some (hd (filter P xs))"
  by (induction xs) auto

text \<open>
  C5. When the URL has a path segment of exactly ten code units of \<open>[A-Z0-9]\<close> between
  two slashes, the extracted \<open>asin\<close> is that segment (the first one, should there be
  several), whatever the document holds: the attributes of the page are not looked at.
\<close>

theorem asin_is_url_segment:
  "asin_segments u \<noteq> [] \<Longrightarrow> asin (extractProduct ld doc u) = hd (asin_segments u)"
  by (simp add: extractProduct_fields extractASIN_def url_asin_match_segments asin_segments_def
      find_hd_filter)

text \<open>
  On a page that carries another ASIN in its attributes, the ASIN of the URL is taken;
  without the closing slash the URL has no such segment and the attribute is.
\<close>

theorem asin_is_url_segment_witness:
  "asin_segments (str ''https://www.amazon.com/dp/B08N5WRWNW/ref=sr_1_1'') \<noteq> []
   \<and> asin (extractProduct no_json asin_input_page
               (str ''https://www.amazon.com/dp/B08N5WRWNW/ref=sr_1_1''))
       = str ''B08N5WRWNW''"
proof -
  have s: "asin_segments (str ''https://www.amazon.com/dp/B08N5WRWNW/ref=sr_1_1'')
           = [str ''B08N5WRWNW'']"
    by (simp add: asin_segments_def inner_segments_def str_def is_asin_def is_upper_alnum_def
        is_upper_def is_digit_def)
  show ?thesis
    using asin_is_url_segment[of "str ''https://www.amazon.com/dp/B08N5WRWNW/ref=sr_1_1''"
        no_json asin_input_page] s
    by simp
qed

lemma asin_of_page_attribute:
  "asin (extractProduct ld asin_input_page product_url) = str ''B000000001''"
  by (simp add: extractProduct_fields extractASIN_def asin_selectors_def asin_input_page_def
      attr_of_def or_else_def truthy_def is_asin_def is_upper_alnum_def is_upper_def is_digit_def
      asin_at_def product_url_def str_def)

section \<open>Properties: technical data and categories\<close>

text \<open>
  C7. The claim is that technical-spec extraction stops at the first selector that yields a
  row. On \<open>tech_page\<close> the first selector \<open>#tech tbody tr\<close> yields the row \<open>Brand: Acme\<close>,
  and the output still holds the row \<open>Color: Red\<close>, which only the last selector
  \<open>.a-keyvalue tbody tr\<close> matches: the \<open>return false\<close> of the source does not end a
  \<open>forEach\<close> over an array.
\<close>

theorem technicalData_later_selector:
  "technicalData (extractProduct ld tech_page u) = str ''Brand: Acme'' @ [10] @ str ''Color: Red''"
  by (simp add: extractProduct_fields extractTechnicalData_def tech_rows_def tech_selectors_def tech_page_def
      add_tech_row_def table_row_def text_node_def text_of_def str_def trim_def is_space_def
      empty_glyph_def)

text \<open>
  C8. The claim is that category extraction stops at the first breadcrumb selector that
  yields a category. On \<open>breadcrumb_page\<close> the first selector yields \<open>Electronics\<close>, and
  the output still holds \<open>Best Sellers\<close>, which only the third selector \<open>#nav-subnav a\<close>
  matches, for the same reason as in \<open>extractTechnicalData\<close>.
\<close>

theorem categories_later_selector:
  "categories (extractProduct ld breadcrumb_page u) = [str ''Electronics'', str ''Best Sellers'']"
  by (simp add: extractProduct_fields extractCategories_def category_loop_def breadcrumb_selectors_def
      breadcrumb_page_def add_category_def text_node_def str_def trim_def is_space_def
      toLowerCase_def lower_unit_def is_upper_def starts_with_def)

section \<open>Properties: rating\<close>

lemma trim_Nil: "trim [] = []"
  by (simp add: trim_def)

lemma rating_match_Nil: "rating_match [] = None"
  by (simp add: rating_at_def)

lemma count_match_Nil: "count_match [] = None"
  by (simp add: count_match_def)

text \<open>
  When the pattern matches the text of the first matching node, the chain gives that
  match: the selectors before it match no node, and the pattern does not match the empty
  text they give.
\<close>

lemma match_chain_first_node:
  "first_node_text doc sels = Some t \<Longrightarrow> m [] = None \<Longrightarrow> m (trim t) = Some g \<Longrightarrow>
   match_chain m doc sels = Some g"
proof (induction sels)
  case Nil
  then show ?case by simp
next
  case (Cons s sels)
  show ?case
  proof (cases "doc s")
    case Nil
    with Cons show ?thesis by (simp add: first_text_def trim_Nil)
  next
    case (Cons n ns)
    with Cons.prems show ?thesis by (simp add: first_text_def)
  qed
qed

lemma rating_match_example: "rating_match (trim (str ''4.5 out of 5 stars'')) = Some (str ''4.5'')"
  by (simp add: str_def trim_def is_space_def rating_at_def is_digit_def starts_with_ci_def
      starts_with_def ascii_lower_def is_upper_def)

lemma count_match_example: "count_match (trim (str ''1,234 ratings'')) = Some (str ''1,234'')"
  by (simp add: str_def trim_def is_space_def count_match_def digit_or_comma_def is_digit_def)

text \<open>
  C6, as the claim states it, fails: on \<open>rating_page\<close> the first matching rating node has
  the text \<open>4.5 out of 5 stars\<close> and the first matching count node the text
  \<open>1,234 ratings\<close>, and \<open>ratingCount\<close> is not \<open>1234\<close>. The group \<open>([0-9,]+)\<close> of the
  pattern keeps the comma and nothing removes it.
\<close>

theorem ratingCount_not_stripped:
  "first_node_text rating_page rating_selectors = Some (str ''4.5 out of 5 stars'')
   \<and> first_node_text rating_page count_selectors = Some (str ''1,234 ratings'')
   \<and> ratingCount (rating_fields (extractProduct no_json rating_page product_url))
       \<noteq> Some (str ''1234'')"
  by (simp add: extractProduct_fields extractRating_def rating_selectors_def count_selectors_def rating_page_def
      text_node_def str_def trim_def is_space_def first_text_def count_match_def
      digit_or_comma_def is_digit_def)

text \<open>
  C6, amended. For every document whose first matching rating node has the text
  \<open>4.5 out of 5 stars\<close> and whose first matching count node has the text
  \<open>1,234 ratings\<close>, the record has the rating \<open>4.5\<close> and the rating count \<open>1,234\<close>, with
  its comma.
\<close>

theorem rating_example:
  assumes "first_node_text doc rating_selectors = Some (str ''4.5 out of 5 stars'')"
    and "first_node_text doc count_selectors = Some (str ''1,234 ratings'')"
  shows "rating (rating_fields (extractProduct ld doc u)) = Some (str ''4.5'')
         \<and> ratingCount (rating_fields (extractProduct ld doc u)) = Some (str ''1,234'')"
  using match_chain_first_node[OF assms(1) rating_match_Nil rating_match_example]
    match_chain_first_node[OF assms(2) count_match_Nil count_match_example]
  by (simp add: extractProduct_fields extractRating_def)

theorem rating_example_witness:
  "first_node_text rating_page rating_selectors = Some (str ''4.5 out of 5 stars'')
   \<and> first_node_text rating_page count_selectors = Some (str ''1,234 ratings'')
   \<and> rating (rating_fields (extractProduct no_json rating_page product_url)) = Some (str ''4.5'')
   \<and> ratingCount (rating_fields (extractProduct no_json rating_page product_url))
       = Some (str ''1,234'')"
proof -
  have r: "first_node_text rating_page rating_selectors = Some (str ''4.5 out of 5 stars'')"
    by (simp add: rating_selectors_def rating_page_def text_node_def str_def)
  have c: "first_node_text rating_page count_selectors = Some (str ''1,234 ratings'')"
    by (simp add: count_selectors_def rating_page_def text_node_def str_def)
  show ?thesis using r c rating_example[OF r c, of no_json product_url] by simp
qed

section \<open>Properties: mirrored prices\<close>

lemma price_chain_all_empty:
  "\<forall>sel \<in> set sels. doc sel = [] \<Longrightarrow> price_chain ok doc sels = []"
  by (induction sels) (simp_all add: first_text_def trim_Nil)

text \<open>
  C2, as the claim states it, fails in the direction from the original price to the offer
  price: on \<open>original_only_page\<close> the chain of the current price finds nothing, the chain
  of the original price finds \<open>$99.99\<close>, and the record has no \<open>offerPrice\<close>.
\<close>

theorem original_price_not_mirrored:
  "current_chain original_only_page = []
   \<and> original_chain original_only_page (current_chain original_only_page) = str ''$99.99''
   \<and> originalPrice (price_fields (extractProduct no_json original_only_page product_url))
       = Some (str ''$99.99'')
   \<and> offerPrice (price_fields (extractProduct no_json original_only_page product_url)) = None"
  by (simp add: extractProduct_fields extractPricing_def current_chain_def original_chain_def discount_chain_def
      span_fallback_def json_ld_prices_def add_savings_def truthy_def
      current_selectors_def original_selectors_def discount_selectors_def
      original_only_page_def text_node_def first_text_def str_def trim_def is_space_def
      digit_or_comma_def is_digit_def)

text \<open>
  The savings step keeps the two prices, and the JSON-LD step keeps the original price and,
  when no script gives a price, the whole object.
\<close>

lemma add_savings_prices:
  "originalPrice (add_savings p) = originalPrice p" "offerPrice (add_savings p) = offerPrice p"
  by (simp_all add: add_savings_def Let_def)

lemma add_savings_no_offer: "offerPrice p = None \<Longrightarrow> add_savings p = p"
  by (simp add: add_savings_def truthy_def)

lemma json_ld_prices_original: "originalPrice (json_ld_prices ld doc p) = originalPrice p"
proof -
  have "originalPrice (foldl (\<lambda>q script. case ld (text_of [script]) of
                          Some v \<Rightarrow> q\<lparr> offerPrice := Some v \<rparr>
                        | None \<Rightarrow> q) p scripts) = originalPrice p" for scripts
    by (induction scripts arbitrary: p) (simp_all split: option.split)
  then show ?thesis by (simp add: json_ld_prices_def)
qed

lemma json_ld_prices_none:
  assumes "\<forall>script \<in> set (doc (str ''script[type=\"application/ld+json\"]'')). ld (text_of [script]) = None"
  shows "json_ld_prices ld doc p = p"
proof -
  have "\<forall>script \<in> set scripts. ld (text_of [script]) = None \<Longrightarrow>
        foldl (\<lambda>q script. case ld (text_of [script]) of
                          Some v \<Rightarrow> q\<lparr> offerPrice := Some v \<rparr>
                        | None \<Rightarrow> q) p scripts = p" for scripts
    by (induction scripts arbitrary: p) simp_all
  then show ?thesis using assms by (simp add: json_ld_prices_def)
qed

text \<open>
  C2, amended. When only the chain of the current price yields a match, \<open>offerPrice\<close> and
  \<open>originalPrice\<close> are both that value. When only the chain of the original price yields
  a match, \<open>originalPrice\<close> is that value and it is not copied: \<open>offerPrice\<close> stays absent
  when neither the scan of the \<open>span\<close> nodes nor a JSON-LD script supplies a price, that
  is, when the scan finds no price and the reader gives no price on any script of the page.
\<close>

theorem price_mirror:
  "(current_chain doc \<noteq> [] \<and> original_chain doc (current_chain doc) = []
      \<longrightarrow> offerPrice (price_fields (extractProduct ld doc u)) = Some (current_chain doc)
          \<and> originalPrice (price_fields (extractProduct ld doc u)) = Some (current_chain doc))
   \<and> (current_chain doc = [] \<and> original_chain doc (current_chain doc) \<noteq> []
      \<longrightarrow> originalPrice (price_fields (extractProduct ld doc u))
            = Some (original_chain doc (current_chain doc))
          \<and> (span_fallback doc = []
               \<and> (\<forall>script \<in> set (doc (str ''script[type=\"application/ld+json\"]'')).
                     ld (text_of [script]) = None)
              \<longrightarrow> offerPrice (price_fields (extractProduct ld doc u)) = None))"
  by (simp add: extractProduct_fields extractPricing_def add_savings_prices json_ld_prices_original
      json_ld_prices_none add_savings_no_offer Let_def)


theorem price_mirror_witness:
  "current_chain offer_only_page \<noteq> []
   \<and> original_chain offer_only_page (current_chain offer_only_page) = []
   \<and> offerPrice (price_fields (extractProduct no_json offer_only_page product_url))
       = Some (str ''$79.99'')
   \<and> originalPrice (price_fields (extractProduct no_json offer_only_page product_url))
       = Some (str ''$79.99'')
   \<and> current_chain original_script_page = []
   \<and> original_chain original_script_page (current_chain original_script_page) \<noteq> []
   \<and> span_fallback original_script_page = []
   \<and> original_script_page (str ''script[type=\"application/ld+json\"]'')
       = [text_node ''{\"name\":\"Widget\"}'']
   \<and> example_json (text_of [text_node ''{\"name\":\"Widget\"}'']) = None
   \<and> originalPrice (price_fields (extractProduct example_json original_script_page product_url))
       = Some (str ''$99.99'')
   \<and> offerPrice (price_fields (extractProduct example_json original_script_page product_url))
       = None"
proof -
  have c1: "current_chain offer_only_page = str ''$79.99''"
    by (simp add: current_chain_def current_selectors_def offer_only_page_def text_node_def
        first_text_def str_def trim_def is_space_def digit_or_comma_def is_digit_def)
  have o1: "original_chain offer_only_page (current_chain offer_only_page) = []"
    unfolding original_chain_def
    by (rule price_chain_all_empty) (simp add: original_selectors_def offer_only_page_def str_def)
  have c2: "current_chain original_script_page = []"
    unfolding current_chain_def
    by (rule price_chain_all_empty)
      (simp add: current_selectors_def original_script_page_def str_def)
  have o2: "original_chain original_script_page (current_chain original_script_page)
            = str ''$99.99''"
    by (simp add: c2 original_chain_def original_selectors_def original_script_page_def
        text_node_def first_text_def str_def trim_def is_space_def digit_or_comma_def is_digit_def)
  have s2: "span_fallback original_script_page = []"
    by (simp add: span_fallback_def original_script_page_def str_def)
  have j2: "original_script_page (str ''script[type=\"application/ld+json\"]'')
            = [text_node ''{\"name\":\"Widget\"}'']"
    by (simp add: original_script_page_def str_def)
  have e2: "example_json (text_of [text_node ''{\"name\":\"Widget\"}'']) = None"
    by (simp add: example_json_def text_of_def text_node_def str_def)
  show ?thesis
    using price_mirror[of offer_only_page no_json product_url]
      price_mirror[of original_script_page example_json product_url] c1 o1 c2 o2 s2 j2 e2
    by (simp add: str_def)
qed

section \<open>Properties: the empty document\<close>

lemma first_trimmed_text_all_empty:
  "\<forall>sel \<in> set sels. doc sel = [] \<Longrightarrow> first_trimmed_text doc sels = []"
  by (induction sels) (simp_all add: first_text_def trim_Nil)













section \<open>Properties: the request handler\<close>

text \<open>
  On a parsed body without the key \<open>url\<close>, and on one whose \<open>url\<close> is a string without
  the substring \<open>amazon.\<close>, the handler answers with status 400 and does not call the
  scraper: the error is \<open>URL is required\<close> without the key and for the empty string,
  \<open>Please provide a valid Amazon product URL\<close> otherwise.
\<close>

lemma handler_rejects_string_url:
  "(req_body (str ''url'') = None
      \<longrightarrow> scrape_handler e req_body
          = (\<lparr> status = 400, body = Error (str ''URL is required'') \<rparr>, []))
   \<and> (req_body (str ''url'') = Some (Str s) \<and> \<not> js_includes s (str ''amazon.'')
      \<longrightarrow> scrape_handler e req_body
          = (\<lparr> status = 400,
               body = Error (if s = [] then str ''URL is required''
                             else str ''Please provide a valid Amazon product URL'') \<rparr>, []))"
  by (simp add: scrape_handler_def js_truthy_def url_includes_def)

text \<open>
  C10. The claim is that every request whose \<open>url\<close> does not contain \<open>amazon.\<close> is
  answered with status 400 and a validation error. The body is JSON, so \<open>url\<close> can be a
  number: for the body \<^verbatim>\<open>{"url": 123}\<close> the value is truthy, the call \<open>url.includes\<close> in
  the block that validates the URL throws a \<open>TypeError\<close>, and the \<open>catch\<close> of the handler
  answers with status 500 and the message of that error. The scraper is not called.
\<close>

theorem scrape_handler_number_url:
  "scrape_handler empty_page_env [str ''url'' \<mapsto> Number (Fin 123)]
   = (\<lparr> status = 500, body = Error (str ''url.includes is not a function'') \<rparr>, [])"
  by (simp add: scrape_handler_def js_truthy_def url_includes_def)

section \<open>Properties: numbers\<close>

text \<open>Floor and ceiling of a quotient of numerals, for evaluating the definitions.\<close>
lemma floor_rat_numeral [simp]: "\<lfloor>numeral a / numeral b :: rat\<rfloor> = numeral a div numeral b"
  by (metis floor_divide_of_int_eq of_int_numeral)

lemma ceiling_rat_numeral [simp]: "\<lceil>numeral a / numeral b :: rat\<rceil> = - (- numeral a div numeral b)"
  using ceiling_divide_eq_div[of "numeral a" "numeral b", where ?'a = rat] by simp

lemma ndigits_0 [simp]: "ndigits b 0 = 0"
  by (simp add: ndigits.simps)

lemma ndigits_pos: "0 < n \<Longrightarrow> 2 \<le> b \<Longrightarrow> ndigits b n = Suc (ndigits b (n div b))"
  by (subst ndigits.simps) simp

lemma ndigits_upper: "n < 2 ^ k \<Longrightarrow> ndigits 2 n \<le> k"
proof (induction k arbitrary: n)
  case 0
  then show ?case by simp
next
  case (Suc k)
  show ?case
  proof (cases "n = 0")
    case True
    then show ?thesis by simp
  next
    case False
    from Suc.prems have "n div 2 < 2 ^ k" by simp
    from Suc.IH[OF this] False show ?thesis by (simp add: ndigits_pos)
  qed
qed

lemma ndigits_lower: "0 < n \<Longrightarrow> 2 ^ (ndigits 2 n - 1) \<le> n"
proof (induction n rule: less_induct)
  case (less n)
  show ?case
  proof (cases "n div 2 = 0")
    case True
    with less.prems show ?thesis by (simp add: ndigits_pos)
  next
    case False
    then have "0 < n div 2" "n div 2 < n" using less.prems by auto
    from less.IH[OF this(2) this(1)] have "2 ^ (ndigits 2 (n div 2) - 1) \<le> n div 2" .
    moreover have "ndigits 2 (n div 2) \<noteq> 0" using \<open>0 < n div 2\<close> by (simp add: ndigits_pos)
    ultimately show ?thesis using less.prems
      by (cases "ndigits 2 (n div 2)") (auto simp: ndigits_pos)
  qed
qed

lemma round_even_of_int [simp]: "round_even (of_int k) = k"
  by (simp add: round_even_def)

lemma round_even_numeral [simp]: "round_even (numeral k) = numeral k"
  using round_even_of_int[of "numeral k"] by simp

text \<open>A natural number below \<open>2^53\<close> is a double: rounding leaves it as it is.\<close>

lemma round_double_of_nat:
  assumes "n < 2 ^ 53"
  shows "round_double (of_nat n) = Fin (of_nat n)"
proof (cases "n = 0")
  case True
  then show ?thesis by (simp add: round_double_def)
next
  case False
  define L where "L = ndigits 2 n"
  have L1: "1 \<le> L" using False by (simp add: L_def ndigits_pos)
  have L53: "L \<le> 53" unfolding L_def using assms by (rule ndigits_upper)
  have fl: "floor_log 2 (of_nat n) = int L - 1"
    using False by (simp add: floor_log_def L_def)
  have p: "max (int L - 1 - 52) (- 1074) = - int (53 - L)"
    using L1 L53 by simp
  have pw: "pow2 (- int (53 - L)) = 1 / 2 ^ (53 - L)"
    by (simp add: pow2_def nat_diff_distrib')
  have sc: "(of_nat n :: rat) / (1 / 2 ^ (53 - L)) = of_int (int (n * 2 ^ (53 - L)))"
    by simp
  have "round_double (of_nat n) = Fin (of_nat n)"
    unfolding round_double_def Let_def using False
    apply (simp only: abs_of_nat fl p pw sc round_even_of_int of_nat_eq_0_iff if_False)
    apply (simp add: fl)
    using L53 apply linarith
    done
  then show ?thesis .
qed


lemma round_double_numeral [simp]:
  "(numeral k :: nat) < 2 ^ 53 \<Longrightarrow> round_double (numeral k) = Fin (numeral k)"
  using round_double_of_nat[of "numeral k"] by simp

lemma round_double_1 [simp]: "round_double 1 = Fin 1"
  using round_double_of_nat[of 1] by simp

text \<open>The roundings that the examples below go through, each evaluated in steps.\<close>

lemma floor_log_r4_6: "floor_log 2 (23 / 5) = 2"
  by (simp add: floor_log_def ndigits.simps)

lemma round_even_r4_6: "round_even (25895697857380352 / 5) = 5179139571476070"
  by (simp add: round_even_def Let_def)

lemma floor_log_r4_6_rounded: "floor_log 2 (2589569785738035 / 562949953421312) = 2"
  by (simp add: floor_log_def ndigits.simps)

lemma round_double_r4_6: "round_double (23 / 5) = Fin (2589569785738035 / 562949953421312)"
  by (simp add: round_double_def Let_def pow2_def floor_log_r4_6 round_even_r4_6 floor_log_r4_6_rounded)

lemma floor_log_quarter: "floor_log 2 (1 / 4) = - 2"
  by (simp add: floor_log_def ndigits.simps)

lemma round_double_quarter: "round_double (1 / 4) = Fin (1 / 4)"
  by (simp add: round_double_def Let_def pow2_def floor_log_quarter)

lemma floor_log_e21: "floor_log 2 (1000000000000000000000) = 69"
  by (simp add: floor_log_def ndigits.simps)

lemma round_double_e21: "round_double (1000000000000000000000) = Fin (1000000000000000000000)"
  by (simp add: round_double_def Let_def pow2_def floor_log_e21)

lemma floor_log_e21m1: "floor_log 2 (999999999999999999999) = 69"
  by (simp add: floor_log_def ndigits.simps)

lemma round_even_e21m1: "round_even (999999999999999999999 / 131072) = 7629394531250000"
  by (simp add: round_even_def Let_def)

lemma floor_log_e21m1_rounded: "floor_log 2 (1000000000000000000000) = 69"
  by (simp add: floor_log_def ndigits.simps)

lemma round_double_e21m1: "round_double (999999999999999999999) = Fin (1000000000000000000000)"
  by (simp add: round_double_def Let_def pow2_def floor_log_e21m1 round_even_e21m1 floor_log_e21m1_rounded)

lemma floor_log_two_e21: "floor_log 2 (2000000000000000000000) = 70"
  by (simp add: floor_log_def ndigits.simps)

lemma round_double_two_e21: "round_double (2000000000000000000000) = Fin (2000000000000000000000)"
  by (simp add: round_double_def Let_def pow2_def floor_log_two_e21)

section \<open>Properties: tags and the caps of the lists\<close>

text \<open>
  \<open>parseFloat\<close> of a text that starts with a digit: no white space, sign or \<open>Infinity\<close>
  is involved, and the value is the decimal literal, rounded.
\<close>

lemma parseFloat_digit_first:
  assumes "s \<noteq> []" and "is_digit (hd s)"
  shows "parseFloat s = (case unsigned_decimal s of None \<Rightarrow> NaN | Some q \<Rightarrow> round_double q)"
proof -
  obtain c cs where s: "s = c # cs" using assms(1) by (cases s) auto
  with assms(2) have c: "48 \<le> c" "c \<le> 57" by (simp_all add: is_digit_def)
  then have "\<not> is_space c" by (simp add: is_space_def)
  then have d: "dropWhile is_space s = s" by (simp add: s)
  have h: "hd s \<noteq> cc CHR ''-''" "hd s \<noteq> cc CHR ''+''" "\<not> starts_with s (str ''Infinity'')"
    using c by (auto simp: s starts_with_def str_def)
  show ?thesis
    unfolding parseFloat_def d Let_def using h assms(1)
    by (simp split: option.split)
qed

lemma parseFloat_4_6: "parseFloat (str ''4.6'') = Fin (2589569785738035 / 562949953421312)"
proof -
  have u: "unsigned_decimal (str ''4.6'') = Some (23 / 5)"
    by (simp add: unsigned_decimal_def str_def is_digit_def digits_val_def exponent_part_def
        pow10_def Let_def)
  have "parseFloat (str ''4.6'')
        = (case unsigned_decimal (str ''4.6'') of None \<Rightarrow> NaN | Some q \<Rightarrow> round_double q)"
    by (rule parseFloat_digit_first) (simp_all add: str_def is_digit_def)
  then show ?thesis by (simp add: u round_double_r4_6)
qed

lemma rating_4_6_high: "js_ge (parseFloat (str ''4.6'')) (Fin 4)"
  by (simp add: parseFloat_4_6 js_ge_def js_gt_def)

text \<open>
  The keywords of the title \<open>Premium Wireless Bluetooth Speaker\<close> are \<open>wireless\<close>,
  \<open>bluetooth\<close> and \<open>premium\<close>, found in the order of the table; each tag is added unless
  it is among the tags already.
\<close>

lemma speaker_keywords:
  "foldl (add_keyword_tag (toLowerCase (str ''Premium Wireless Bluetooth Speaker''))) ts keywordTags
   = foldl (\<lambda>ts t. if t \<in> set ts then ts else ts @ [t]) ts
       [str ''Wireless'', str ''Bluetooth'', str ''Premium'']"
  by (simp add: keywordTags_def add_keyword_tag_def toLowerCase_def lower_unit_def is_upper_def
      str_def starts_with_def)

text \<open>
  What \<open>generateTags\<close> gives for such a record, for every brand: the brand when there is
  one, \<open>Highly Rated\<close>, and the three keyword tags that are not there yet. The tags are
  without duplicates unless the brand is \<open>Highly Rated\<close>.
\<close>

lemma speaker_tags_any_brand:
  "generateTags (speaker_record b)
   = take 8 (foldl (\<lambda>ts t. if t \<in> set ts then ts else ts @ [t])
               ((if b \<noteq> [] then [b] else []) @ [str ''Highly Rated''])
               [str ''Wireless'', str ''Bluetooth'', str ''Premium''])"
  using rating_4_6_high
  by (simp add: generateTags_def speaker_record_def truthy_def speaker_keywords)
     (simp add: str_def)

text \<open>
  C9. The claim is that every record with the title \<open>Premium Wireless Bluetooth Speaker\<close>,
  the rating \<open>4.6\<close> and no discount has the tags \<open>Wireless\<close>, \<open>Bluetooth\<close>, \<open>Premium\<close>
  and \<open>Highly Rated\<close> in discovery order, without duplicates, at most eight. For the
  record of that kind whose brand is \<open>Highly Rated\<close> the tags hold \<open>Highly Rated\<close> twice:
  the brand is pushed first, and the tag \<open>Highly Rated\<close> is pushed without the test
  \<open>!tags.includes(tag)\<close> that the keyword tags go through.
\<close>

theorem speaker_tags_duplicate:
  "generateTags (speaker_record (str ''Highly Rated''))
   = [str ''Highly Rated'', str ''Highly Rated'', str ''Wireless'', str ''Bluetooth'', str ''Premium'']"
  by (simp add: speaker_tags_any_brand) (simp add: str_def)


text \<open>
  The caps of the four lists hold, and so does the absence of duplicates in \<open>colors\<close>,
  \<open>categories\<close> and the URLs of \<open>images\<close>: each loop keeps its list without duplicates,
  and \<open>slice\<close> cuts it.
\<close>

lemma foldl_invariant:
  "(\<And>acc x. P acc \<Longrightarrow> P (f acc x)) \<Longrightarrow> P acc \<Longrightarrow> P (foldl f acc xs)"
  by (induction xs arbitrary: acc) simp_all

lemma add_color_distinct: "distinct cs \<Longrightarrow> distinct (add_color cs el)"
  by (simp add: add_color_def split: option.split)

lemma add_category_distinct: "distinct cs \<Longrightarrow> distinct (add_category cs el)"
  by (simp add: add_category_def Let_def)

lemma add_image_invariant:
  "map url (fst st) = snd st \<and> distinct (snd st)
   \<Longrightarrow> map url (fst (add_image st img)) = snd (add_image st img)
       \<and> distinct (snd (add_image st img))"
  by (simp add: add_image_def Let_def split: option.split)

lemma extractColors_capped: "length (extractColors doc) \<le> 10 \<and> distinct (extractColors doc)"
proof -
  have "distinct (foldl (\<lambda>cs selector. foldl add_color cs (doc selector)) [] color_selectors)"
    by (rule foldl_invariant, rule foldl_invariant, rule add_color_distinct) simp_all
  then show ?thesis by (simp add: extractColors_def)
qed

lemma extractCategories_capped:
  "length (extractCategories doc) \<le> 5 \<and> distinct (extractCategories doc)"
proof -
  have "distinct (category_loop doc breadcrumb_selectors)"
    unfolding category_loop_def
    by (rule foldl_invariant, rule foldl_invariant, rule add_category_distinct) simp_all
  then show ?thesis by (simp add: extractCategories_def)
qed

lemma extractImages_capped:
  "length (extractImages doc) \<le> 6 \<and> distinct (map url (extractImages doc))"
proof -
  have "map url (fst (image_loop doc image_selectors)) = snd (image_loop doc image_selectors)
        \<and> distinct (snd (image_loop doc image_selectors))"
    unfolding image_loop_def
    by (rule foldl_invariant, rule foldl_invariant, rule add_image_invariant) simp_all
  then have "distinct (map url (fst (image_loop doc image_selectors)))" by simp
  then have "distinct (take 6 (map url (fst (image_loop doc image_selectors))))"
    by (rule distinct_take)
  then show ?thesis by (simp add: extractImages_def take_map)
qed

lemma generateTags_capped: "length (generateTags p) \<le> 8"
  by (simp add: generateTags_def Let_def)

text \<open>The fields of the record of \<open>highly_rated_page\<close> that \<open>generateTags\<close> reads.\<close>

lemma highly_rated_brand: "extractBrand highly_rated_page = str ''Highly Rated''"
  by (simp add: extractBrand_def brand_selectors_def highly_rated_page_def text_node_def
      first_text_def trim_def is_space_def toLowerCase_def lower_unit_def is_upper_def
      strip_by_prefix_def strip_brand_prefix_def starts_with_ci_def ascii_lower_def
      starts_with_def str_def)

lemma highly_rated_title: "extractTitle highly_rated_page = []"
  unfolding extractTitle_def
  by (rule first_trimmed_text_all_empty) (simp add: title_selectors_def highly_rated_page_def str_def)

lemma highly_rated_rating: "rating (extractRating highly_rated_page) = Some (str ''4.6'')"
  by (simp add: extractRating_def rating_selectors_def highly_rated_page_def text_node_def
      first_text_def trim_def is_space_def rating_at_def is_digit_def starts_with_ci_def
      ascii_lower_def is_upper_def starts_with_def str_def)

lemma highly_rated_discount: "offerPercentage (extractPricing no_json highly_rated_page) = None"
proof -
  have c: "current_chain highly_rated_page = []"
    unfolding current_chain_def
    by (rule price_chain_all_empty) (simp add: current_selectors_def highly_rated_page_def str_def)
  have o: "original_chain highly_rated_page [] = []"
    unfolding original_chain_def
    by (rule price_chain_all_empty) (simp add: original_selectors_def highly_rated_page_def str_def)
  have d: "discount_chain highly_rated_page = []"
    unfolding discount_chain_def
    by (rule price_chain_all_empty) (simp add: discount_selectors_def highly_rated_page_def str_def)
  have s: "span_fallback highly_rated_page = []"
    by (simp add: span_fallback_def highly_rated_page_def text_node_def whole_price_def
        trim_def is_space_def str_def)
  have j: "highly_rated_page (str ''script[type=\"application/ld+json\"]'') = []"
    by (simp add: highly_rated_page_def str_def)
  show ?thesis
    by (simp add: extractPricing_def c o d s j add_savings_def truthy_def json_ld_prices_def)
qed

lemma str_Cons_nonempty [simp]: "str (c # cs) \<noteq> []"
  by (simp add: str_def)

lemma no_title_keywords: "foldl (add_keyword_tag (toLowerCase [])) ts keywordTags = ts"
  by (simp add: keywordTags_def add_keyword_tag_def toLowerCase_def str_def)

text \<open>
  C3. The claim is that the four lists respect their caps and have no duplicates. The caps
  hold, and \<open>colors\<close>, \<open>images\<close> and \<open>categories\<close> have no duplicates (the lemmas above);
  \<open>tags\<close> can have one. On \<open>highly_rated_page\<close> the brand is \<open>Highly Rated\<close> and the rating
  is \<open>4.6\<close>, and the tags of the record are \<open>Highly Rated\<close> twice: \<open>generateTags\<close> tests
  \<open>!tags.includes(tag)\<close> for the keyword tags only.
\<close>

theorem tags_duplicate_brand:
  "tags (extractProduct no_json highly_rated_page product_url)
   = [str ''Highly Rated'', str ''Highly Rated'']"
  by (simp add: extractProduct_def generateTags_def highly_rated_brand highly_rated_title
      highly_rated_rating highly_rated_discount truthy_def rating_4_6_high no_title_keywords)

section \<open>Properties: savings\<close>

text \<open>
  \<open>toFixed(2)\<close> of a non-negative number below \<open>10^21\<close> is the number rounded to two
  decimals, written with its integer part, a point and exactly two digits: the padding
  with zeros and the cut before the last two digits of the standard give that.
\<close>

lemma digits_of_small: "n < 10 \<Longrightarrow> digits_of n = [48 + n]"
  by (subst digits_of.simps) simp

lemma digits_of_step: "10 \<le> n \<Longrightarrow> digits_of n = digits_of (n div 10) @ [48 + n mod 10]"
  by (subst digits_of.simps) simp

lemma digits_of_nonempty: "digits_of n \<noteq> []"
  by (cases "n < 10") (simp_all add: digits_of_small digits_of_step)

lemma digits_of_two_last:
  assumes "100 \<le> n"
  shows "digits_of n = digits_of (n div 100) @ [48 + (n div 10) mod 10, 48 + n mod 10]"
proof -
  have "10 \<le> n" "10 \<le> n div 10" using assms by auto
  moreover have "n div 10 div 10 = n div 100"
    by (simp add: div_mult2_eq[symmetric])
  ultimately show ?thesis
    by (simp add: digits_of_step[of n] digits_of_step[of "n div 10"])
qed

lemma toFixed2_two_decimals:
  assumes "0 \<le> q" and "q < 10 ^ 21"
  shows "toFixed2 (Fin q) = two_decimals q"
proof -
  define n where "n = nat \<lfloor>q * 100 + 1 / 2\<rfloor>"
  have a: "\<bar>q\<bar> = q" using assms(1) by simp
  have big: "\<not> 10 ^ 21 \<le> \<bar>q\<bar>" using assms by simp
  have neg: "\<not> q < 0" using assms(1) by simp
  consider "n < 10" | "10 \<le> n" "n < 100" | "100 \<le> n" by linarith
  then have "(let m = digits_of n;
                 m' = (if length m \<le> 2 then replicate (3 - length m) (cc CHR ''0'') @ m else m)
             in take (length m' - 2) m' @ str ''.'' @ drop (length m' - 2) m')
           = digits_of (n div 100) @ str ''.'' @ [48 + (n div 10) mod 10, 48 + n mod 10]"
  proof cases
    case 1
    then show ?thesis by (simp add: digits_of_small)
  next
    case 2
    then have "n div 10 < 10" by simp
    with 2 show ?thesis
      by (simp add: digits_of_step[of n] digits_of_small[of "n div 10"] digits_of_small[of 0])
  next
    case 3
    have "digits_of (n div 100) \<noteq> []" by (rule digits_of_nonempty)
    then have "0 < length (digits_of (n div 100))" by simp
    with 3 show ?thesis
      by (simp add: digits_of_two_last)
  qed
  then show ?thesis
    unfolding toFixed2_def two_decimals_def using big neg
    by (simp add: a n_def Let_def)
qed


text \<open>The difference that the savings step computes is not negative.\<close>

lemma pow2_pos: "0 < pow2 e"
  by (simp add: pow2_def)

lemma round_even_nonneg: "0 \<le> y \<Longrightarrow> 0 \<le> round_even y"
  by (simp add: round_even_def Let_def)

lemma round_double_nonneg:
  assumes "0 < x" and "round_double x = Fin q"
  shows "0 \<le> q"
proof -
  define r where "r = rat_of_int (round_even (\<bar>x\<bar> / pow2 (max (floor_log 2 \<bar>x\<bar> - 52) (- 1074))))
                      * pow2 (max (floor_log 2 \<bar>x\<bar> - 52) (- 1074))"
  have "0 \<le> \<bar>x\<bar> / pow2 (max (floor_log 2 \<bar>x\<bar> - 52) (- 1074))"
    using pow2_pos[of "max (floor_log 2 \<bar>x\<bar> - 52) (- 1074)"] by simp
  then have "0 \<le> r"
    unfolding r_def using pow2_pos[of "max (floor_log 2 \<bar>x\<bar> - 52) (- 1074)"]
    by (simp add: round_even_nonneg)
  moreover have "q = r"
    using assms unfolding round_double_def Let_def r_def[symmetric]
    by (simp split: if_splits)
  ultimately show ?thesis by simp
qed

lemma js_sub_nonneg:
  assumes "js_gt x y" and "js_sub x y = Fin q"
  shows "0 \<le> q"
proof (cases x)
  case (Fin a)
  show ?thesis
  proof (cases y)
    case (Fin b)
    with \<open>x = Fin a\<close> assms show ?thesis
      using round_double_nonneg[of "a - b" q] by (simp add: js_gt_def js_sub_def)
  qed (use \<open>x = Fin a\<close> assms in \<open>simp_all add: js_gt_def js_sub_def\<close>)
qed (use assms in \<open>auto simp: js_gt_def js_sub_def split: jsnum.splits\<close>)

text \<open>
  With both prices found, different as strings, and the original number greater than the
  offer number, the savings step sets \<open>amountSaved\<close> to \<open>toFixed(2)\<close> of the difference.
\<close>

lemma extractPricing_current_price:
  "(if current_chain doc = [] then span_fallback doc else current_chain doc) = current_price doc"
  by (simp add: current_price_def)

lemma extractPricing_amountSaved:
  assumes "current_price doc \<noteq> []"
    and "original_chain doc (current_chain doc) \<noteq> []"
    and "original_chain doc (current_chain doc) \<noteq> current_price doc"
    and "js_gt (original_number doc) (offer_number doc)"
  shows "amountSaved (extractPricing ld doc) = Some (toFixed2 (saved_number doc))"
  using assms
  by (simp add: extractPricing_def Let_def extractPricing_current_price add_savings_def
      truthy_def original_number_def offer_number_def saved_number_def)

text \<open>
  The savings where the offer price comes from the selectors or from the scan of the
  \<open>span\<close> nodes: when it and the original price differ as strings and the original parses
  to the greater number, \<open>amountSaved\<close> is \<open>toFixed(2)\<close> of the difference of the two
  numbers; when the difference is below \<open>10^21\<close> this is the difference rounded to two
  decimals and written with exactly two digits after the point. If no discount text was
  matched, \<open>offerPercentage\<close> is \<open>Math.round\<close> of the difference divided by the original
  and multiplied by 100, followed by \<open>% off\<close>.
\<close>

lemma savings:
  assumes "current_price doc \<noteq> []"
    and "original_chain doc (current_chain doc) \<noteq> []"
    and "original_chain doc (current_chain doc) \<noteq> current_price doc"
    and "js_gt (original_number doc) (offer_number doc)"
  shows "amountSaved (price_fields (extractProduct ld' doc u)) = Some (toFixed2 (saved_number doc))
    \<and> (\<forall>q. saved_number doc = Fin q \<and> q < 10 ^ 21
          \<longrightarrow> amountSaved (price_fields (extractProduct ld' doc u)) = Some (two_decimals q))
    \<and> (discount_chain doc = []
          \<longrightarrow> offerPercentage (price_fields (extractProduct ld' doc u))
              = Some (num_toString (math_round
                        (js_mul (js_div (saved_number doc) (original_number doc)) (Fin 100)))
                      @ str ''% off''))"
  unfolding extractProduct_fields
proof -
  define ld where "ld = ld'"
  have s: "amountSaved (extractPricing ld doc) = Some (toFixed2 (saved_number doc))"
    using assms by (rule extractPricing_amountSaved)
  have t: "amountSaved (extractPricing ld doc) = Some (two_decimals q)"
    if "saved_number doc = Fin q" "q < 10 ^ 21" for q
  proof -
    have "0 \<le> q"
      using assms(4) that(1) unfolding saved_number_def by (rule js_sub_nonneg)
    then show ?thesis
      using s that by (simp add: toFixed2_two_decimals)
  qed
  have p: "offerPercentage (extractPricing ld doc)
              = Some (num_toString (math_round
                        (js_mul (js_div (saved_number doc) (original_number doc)) (Fin 100)))
                      @ str ''% off'')"
    if "discount_chain doc = []"
    using assms that
    by (simp add: extractPricing_def Let_def extractPricing_current_price add_savings_def
        truthy_def original_number_def offer_number_def saved_number_def)
  show "amountSaved (extractPricing ld' doc) = Some (toFixed2 (saved_number doc))
    \<and> (\<forall>q. saved_number doc = Fin q \<and> q < 10 ^ 21
          \<longrightarrow> amountSaved (extractPricing ld' doc) = Some (two_decimals q))
    \<and> (discount_chain doc = []
          \<longrightarrow> offerPercentage (extractPricing ld' doc)
              = Some (num_toString (math_round
                        (js_mul (js_div (saved_number doc) (original_number doc)) (Fin 100)))
                      @ str ''% off''))"
    using s t p unfolding ld_def by blast
qed

text \<open>The witness: on \<open>sale_page\<close> the prices are \<open>$75\<close> and \<open>$100\<close>.\<close>

lemma num_toString_25: "num_toString (Fin 25) = str ''25''"
proof -
  have fl: "floor_log 10 25 = 1"
    by (simp add: floor_log_def ndigits.simps)
  have c1: "digit_candidate 25 2 (Suc 0) = None"
    by (simp add: digit_candidate_def pow10_def Let_def)
  have c2: "digit_candidate 25 2 (Suc (Suc 0)) = Some (25, 2)"
    by (simp add: digit_candidate_def pow10_def Let_def)
  have sd: "shortest_digits 25 2 (Suc 0) 17 = (25, 2)"
    by (simp add: numeral_eq_Suc c1 c2)
  have d: "digits_of 25 = str ''25''"
    by (simp add: digits_of_step digits_of_small str_def)
  have "positive_toString 25 = str ''25''"
    by (simp add: positive_toString_def fl sd d Let_def) (simp add: str_def)
  then show ?thesis
    by (simp add: num_toString_def)
qed

lemma sale_page_current: "current_chain sale_page = str ''$75''"
  by (simp add: current_chain_def current_selectors_def sale_page_def text_node_def
      first_text_def str_def trim_def is_space_def digit_or_comma_def is_digit_def)

lemma sale_page_original: "original_chain sale_page (str ''$75'') = str ''$100''"
  by (simp add: original_chain_def original_selectors_def sale_page_def text_node_def
      first_text_def str_def trim_def is_space_def digit_or_comma_def is_digit_def)

lemma sale_page_discount: "discount_chain sale_page = []"
  unfolding discount_chain_def
  by (rule price_chain_all_empty) (simp add: discount_selectors_def sale_page_def str_def)

lemma parseFloat_100: "parseFloat (strip_non_numeric (str ''$100'')) = Fin 100"
proof -
  have s: "strip_non_numeric (str ''$100'') = str ''100''"
    by (simp add: strip_non_numeric_def str_def is_digit_def)
  have u: "unsigned_decimal (str ''100'') = Some 100"
    by (simp add: unsigned_decimal_def str_def is_digit_def digits_val_def exponent_part_def
        pow10_def Let_def)
  have "parseFloat (str ''100'')
        = (case unsigned_decimal (str ''100'') of None \<Rightarrow> NaN | Some q \<Rightarrow> round_double q)"
    by (rule parseFloat_digit_first) (simp_all add: str_def is_digit_def)
  then show ?thesis by (simp add: s u)
qed

lemma parseFloat_75: "parseFloat (strip_non_numeric (str ''$75'')) = Fin 75"
proof -
  have s: "strip_non_numeric (str ''$75'') = str ''75''"
    by (simp add: strip_non_numeric_def str_def is_digit_def)
  have u: "unsigned_decimal (str ''75'') = Some 75"
    by (simp add: unsigned_decimal_def str_def is_digit_def digits_val_def exponent_part_def
        pow10_def Let_def)
  have "parseFloat (str ''75'')
        = (case unsigned_decimal (str ''75'') of None \<Rightarrow> NaN | Some q \<Rightarrow> round_double q)"
    by (rule parseFloat_digit_first) (simp_all add: str_def is_digit_def)
  then show ?thesis by (simp add: s u)
qed

lemma savings_sale_page:
  "current_price sale_page \<noteq> []
   \<and> original_chain sale_page (current_chain sale_page) \<noteq> []
   \<and> original_chain sale_page (current_chain sale_page) \<noteq> current_price sale_page
   \<and> js_gt (original_number sale_page) (offer_number sale_page)
   \<and> saved_number sale_page = Fin 25 \<and> (25 :: rat) < 10 ^ 21
   \<and> discount_chain sale_page = []
   \<and> amountSaved (price_fields (extractProduct no_json sale_page product_url))
       = Some (str ''25.00'')
   \<and> offerPercentage (price_fields (extractProduct no_json sale_page product_url))
       = Some (str ''25% off'')"
proof -
  have cp: "current_price sale_page = str ''$75''"
    by (simp add: current_price_def sale_page_current)
  have o: "original_chain sale_page (current_chain sale_page) = str ''$100''"
    by (simp add: sale_page_current sale_page_original)
  have ne: "str ''$100'' \<noteq> str ''$75''"
    by (simp add: str_def)
  have on: "original_number sale_page = Fin 100"
    by (simp add: original_number_def o parseFloat_100)
  have fn: "offer_number sale_page = Fin 75"
    by (simp add: offer_number_def cp parseFloat_75)
  have sv: "saved_number sale_page = Fin 25"
    by (simp add: saved_number_def on fn js_sub_def)
  have gt: "js_gt (original_number sale_page) (offer_number sale_page)"
    by (simp add: on fn js_gt_def)
  have td: "two_decimals 25 = str ''25.00''"
    by (simp add: two_decimals_def digits_of_step digits_of_small str_def)
  have tf: "toFixed2 (Fin 25) = str ''25.00''"
    using toFixed2_two_decimals[of 25] td by simp
  have pc: "num_toString (math_round (js_mul (js_div (Fin 25) (Fin 100)) (Fin 100))) = str ''25''"
    by (simp add: js_div_def js_mul_def round_double_quarter math_round_def num_toString_25)
  have h1: "current_price sale_page \<noteq> []" by (simp add: cp)
  have h2: "original_chain sale_page (current_chain sale_page) \<noteq> []" by (simp add: o)
  have h3: "original_chain sale_page (current_chain sale_page) \<noteq> current_price sale_page"
    by (simp add: o cp ne)
  show ?thesis
    using savings[OF h1 h2 h3 gt, of no_json product_url] h1 h2 h3 gt sv sale_page_discount
    by (simp add: td tf pc on) (simp add: str_def)
qed


text \<open>The prices \<open>$1\<close> and \<open>$1000000000000000000000\<close> of \<open>huge_price_page\<close>.\<close>

lemma num_toString_e21: "num_toString (Fin 1000000000000000000000) = str ''1e+21''"
proof -
  have fl: "floor_log 10 1000000000000000000000 = 21"
    by (simp add: floor_log_def ndigits.simps)
  have c1: "digit_candidate 1000000000000000000000 22 (Suc 0) = Some (1, 22)"
    by (simp add: digit_candidate_def pow10_def Let_def round_double_e21 round_double_two_e21)
  have sd: "shortest_digits 1000000000000000000000 22 (Suc 0) 17 = (1, 22)"
    by (simp add: numeral_eq_Suc c1)
  have d: "digits_of (Suc 0) = str ''1''" "digits_of 21 = str ''21''"
    by (simp_all add: digits_of_step digits_of_small str_def)
  have "positive_toString 1000000000000000000000 = str ''1e+21''"
    by (simp add: positive_toString_def fl sd d exponent_string_def Let_def) (simp add: str_def)
  then show ?thesis
    by (simp add: num_toString_def)
qed

lemma huge_price_page_current: "current_chain huge_price_page = str ''$1''"
  by (simp add: current_chain_def current_selectors_def huge_price_page_def text_node_def
      first_text_def str_def trim_def is_space_def digit_or_comma_def is_digit_def)

lemma huge_price_page_original:
  "original_chain huge_price_page (str ''$1'') = str ''$1000000000000000000000''"
  by (simp add: original_chain_def original_selectors_def huge_price_page_def text_node_def
      first_text_def str_def trim_def is_space_def digit_or_comma_def is_digit_def)

lemma parseFloat_e21:
  "parseFloat (strip_non_numeric (str ''$1000000000000000000000'')) = Fin 1000000000000000000000"
proof -
  have s: "strip_non_numeric (str ''$1000000000000000000000'') = str ''1000000000000000000000''"
    by (simp add: strip_non_numeric_def str_def is_digit_def)
  have u: "unsigned_decimal (str ''1000000000000000000000'') = Some 1000000000000000000000"
    by (simp add: unsigned_decimal_def str_def is_digit_def digits_val_def exponent_part_def
        pow10_def Let_def)
  have "parseFloat (str ''1000000000000000000000'')
        = (case unsigned_decimal (str ''1000000000000000000000'') of
             None \<Rightarrow> NaN | Some q \<Rightarrow> round_double q)"
    by (rule parseFloat_digit_first) (simp_all add: str_def is_digit_def)
  then show ?thesis by (simp add: s u round_double_e21)
qed

lemma parseFloat_1: "parseFloat (strip_non_numeric (str ''$1'')) = Fin 1"
proof -
  have s: "strip_non_numeric (str ''$1'') = str ''1''"
    by (simp add: strip_non_numeric_def str_def is_digit_def)
  have u: "unsigned_decimal (str ''1'') = Some 1"
    by (simp add: unsigned_decimal_def str_def is_digit_def digits_val_def exponent_part_def
        pow10_def Let_def)
  have "parseFloat (str ''1'')
        = (case unsigned_decimal (str ''1'') of None \<Rightarrow> NaN | Some q \<Rightarrow> round_double q)"
    by (rule parseFloat_digit_first) (simp_all add: str_def is_digit_def)
  then show ?thesis by (simp add: s u)
qed

text \<open>
  Where the difference reaches \<open>10^21\<close>, \<open>toFixed\<close> gives the exponent notation of
  \<open>Number::toString\<close>: on \<open>huge_price_page\<close> both prices are found, the original is the
  greater number, and \<open>amountSaved\<close> is \<open>1e+21\<close>.
\<close>

lemma savings_exponent:
  "current_price huge_price_page = str ''$1''
   \<and> original_chain huge_price_page (current_chain huge_price_page) = str ''$1000000000000000000000''
   \<and> js_gt (original_number huge_price_page) (offer_number huge_price_page)
   \<and> amountSaved (price_fields (extractProduct no_json huge_price_page product_url))
       = Some (str ''1e+21'')"
proof -
  have cp: "current_price huge_price_page = str ''$1''"
    by (simp add: current_price_def huge_price_page_current)
  have o: "original_chain huge_price_page (current_chain huge_price_page)
           = str ''$1000000000000000000000''"
    by (simp add: huge_price_page_current huge_price_page_original)
  have ne: "str ''$1000000000000000000000'' \<noteq> str ''$1''"
    by (simp add: str_def)
  have on: "original_number huge_price_page = Fin 1000000000000000000000"
    by (simp add: original_number_def o parseFloat_e21)
  have fn: "offer_number huge_price_page = Fin 1"
    by (simp add: offer_number_def cp parseFloat_1)
  have sv: "saved_number huge_price_page = Fin 1000000000000000000000"
    by (simp add: saved_number_def on fn js_sub_def round_double_e21m1)
  have gt: "js_gt (original_number huge_price_page) (offer_number huge_price_page)"
    by (simp add: on fn js_gt_def)
  have tf: "toFixed2 (Fin 1000000000000000000000) = str ''1e+21''"
    by (simp add: toFixed2_def num_toString_e21)
  have h1: "current_price huge_price_page \<noteq> []" by (simp add: cp)
  have h2: "original_chain huge_price_page (current_chain huge_price_page) \<noteq> []" by (simp add: o)
  have h3: "original_chain huge_price_page (current_chain huge_price_page)
            \<noteq> current_price huge_price_page"
    by (simp add: o cp ne)
  show ?thesis
    using extractPricing_amountSaved[OF h1 h2 h3 gt, of no_json] cp o gt
    by (simp add: extractProduct_fields sv tf)
qed

text \<open>
  An offer price that the scan of the \<open>span\<close> nodes finds gets its savings: on
  \<open>span_price_page\<close> the record has the prices \<open>$75\<close> and \<open>$100\<close> and \<open>amountSaved\<close> is
  \<open>25.00\<close>.
\<close>

lemma span_price_page_current: "current_price span_price_page = str ''$75''"
proof -
  have "current_chain span_price_page = []"
    unfolding current_chain_def
    by (rule price_chain_all_empty) (simp add: current_selectors_def span_price_page_def str_def)
  moreover have "span_fallback span_price_page = str ''$75''"
    by (simp add: span_fallback_def span_price_page_def text_node_def whole_price_def
        str_def trim_def is_space_def digit_or_comma_def is_digit_def)
  ultimately show ?thesis by (simp add: current_price_def)
qed

lemma span_price_page_chain: "current_chain span_price_page = []"
  unfolding current_chain_def
  by (rule price_chain_all_empty) (simp add: current_selectors_def span_price_page_def str_def)

lemma span_price_page_original: "original_chain span_price_page [] = str ''$100''"
  by (simp add: original_chain_def original_selectors_def span_price_page_def text_node_def
      first_text_def str_def trim_def is_space_def digit_or_comma_def is_digit_def)

lemma savings_span_price:
  "offerPrice (price_fields (extractProduct ld span_price_page u)) = Some (str ''$75'')
   \<and> originalPrice (price_fields (extractProduct ld span_price_page u)) = Some (str ''$100'')
   \<and> amountSaved (price_fields (extractProduct ld span_price_page u)) = Some (str ''25.00'')"
proof -
  have cp: "current_price span_price_page = str ''$75''"
    by (rule span_price_page_current)
  have o: "original_chain span_price_page (current_chain span_price_page) = str ''$100''"
    by (simp add: span_price_page_chain span_price_page_original)
  have ne: "str ''$100'' \<noteq> str ''$75''"
    by (simp add: str_def)
  have on: "original_number span_price_page = Fin 100"
    by (simp add: original_number_def o parseFloat_100)
  have fn: "offer_number span_price_page = Fin 75"
    by (simp add: offer_number_def cp parseFloat_75)
  have sv: "saved_number span_price_page = Fin 25"
    by (simp add: saved_number_def on fn js_sub_def)
  have gt: "js_gt (original_number span_price_page) (offer_number span_price_page)"
    by (simp add: on fn js_gt_def)
  have td: "two_decimals 25 = str ''25.00''"
    by (simp add: two_decimals_def digits_of_step digits_of_small str_def)
  have tf: "toFixed2 (Fin 25) = str ''25.00''"
    using toFixed2_two_decimals[of 25] td by simp
  have h1: "current_price span_price_page \<noteq> []" by (simp add: cp)
  have h2: "original_chain span_price_page (current_chain span_price_page) \<noteq> []" by (simp add: o)
  have h3: "original_chain span_price_page (current_chain span_price_page)
            \<noteq> current_price span_price_page"
    by (simp add: o cp ne)
  have a: "amountSaved (extractPricing ld span_price_page) = Some (str ''25.00'')"
    using extractPricing_amountSaved[OF h1 h2 h3 gt, of ld] by (simp add: sv tf)
  have p: "offerPrice (extractPricing ld span_price_page) = Some (str ''$75'')
           \<and> originalPrice (extractPricing ld span_price_page) = Some (str ''$100'')"
    using h1 cp o
    by (simp add: extractPricing_def Let_def extractPricing_current_price add_savings_prices)
  show ?thesis
    using a p by (simp add: extractProduct_fields)
qed

text \<open>The prices of \<open>json_price_page\<close>.\<close>

lemma json_price_page_current: "current_chain json_price_page = []"
  unfolding current_chain_def
  by (rule price_chain_all_empty) (simp add: current_selectors_def json_price_page_def str_def)

lemma json_price_page_original: "original_chain json_price_page [] = str ''$100''"
  by (simp add: original_chain_def original_selectors_def json_price_page_def text_node_def
      first_text_def str_def trim_def is_space_def digit_or_comma_def is_digit_def)

lemma json_price_page_span: "span_fallback json_price_page = []"
  by (simp add: span_fallback_def json_price_page_def str_def)

lemma json_price_page_discount: "discount_chain json_price_page = []"
  unfolding discount_chain_def
  by (rule price_chain_all_empty) (simp add: discount_selectors_def json_price_page_def str_def)

lemma json_price_page_script:
  "json_ld_prices example_json json_price_page p = p\<lparr> offerPrice := Some (str ''75'') \<rparr>"
  by (simp add: json_ld_prices_def json_price_page_def example_json_def text_of_def
      text_node_def str_def)

lemma parseFloat_75_plain: "parseFloat (strip_non_numeric (str ''75'')) = Fin 75"
proof -
  have s: "strip_non_numeric (str ''75'') = str ''75''"
    by (simp add: strip_non_numeric_def str_def is_digit_def)
  have u: "unsigned_decimal (str ''75'') = Some 75"
    by (simp add: unsigned_decimal_def str_def is_digit_def digits_val_def exponent_part_def
        pow10_def Let_def)
  have "parseFloat (str ''75'')
        = (case unsigned_decimal (str ''75'') of None \<Rightarrow> NaN | Some q \<Rightarrow> round_double q)"
    by (rule parseFloat_digit_first) (simp_all add: str_def is_digit_def)
  then show ?thesis by (simp add: s u)
qed

text \<open>
  C1. The claim is that a record with an offer price and an original price that differ as
  strings, the original parsing to the greater number, has \<open>amountSaved\<close> equal to their
  difference with two decimals, and a computed \<open>offerPercentage\<close> when no discount text
  was matched. On \<open>json_price_page\<close> no selector and no \<open>span\<close> gives a current price, the
  chain of the original price finds \<open>$100\<close>, and the JSON-LD script gives the offer price
  \<open>75\<close>. The record has both prices, they differ, 100 is greater than 75, and the record
  has neither \<open>amountSaved\<close> nor \<open>offerPercentage\<close>: the source computes the savings
  before it reads the JSON-LD scripts.
\<close>

theorem savings_missing_json_price:
  "offerPrice (price_fields (extractProduct example_json json_price_page product_url))
     = Some (str ''75'')
   \<and> originalPrice (price_fields (extractProduct example_json json_price_page product_url))
       = Some (str ''$100'')
   \<and> str ''$100'' \<noteq> str ''75''
   \<and> parseFloat (strip_non_numeric (str ''$100'')) = Fin 100
   \<and> parseFloat (strip_non_numeric (str ''75'')) = Fin 75
   \<and> js_gt (Fin 100) (Fin 75)
   \<and> amountSaved (price_fields (extractProduct example_json json_price_page product_url)) = None
   \<and> offerPercentage (price_fields (extractProduct example_json json_price_page product_url))
       = None"
proof -
  have p: "extractPricing example_json json_price_page
           = \<lparr> offerPrice = Some (str ''75''), originalPrice = Some (str ''$100''),
               offerPercentage = None, amountSaved = None \<rparr>"
    by (simp add: extractPricing_def json_price_page_current json_price_page_original
        json_price_page_span json_price_page_discount json_price_page_script
        add_savings_def truthy_def)
  have ne: "str ''$100'' \<noteq> str ''75''"
    by (simp add: str_def)
  show ?thesis
    by (simp add: extractProduct_fields p ne parseFloat_100 parseFloat_75_plain js_gt_def)
qed

end
